theory Spec2Isabelle
  imports Main "HOL-Library.Word"
begin

unbundle bit_operations_syntax

section \<open>The archive stream\<close>

text \<open>
  \<^verbatim>\<open>rar2john.c\<close> reads an archive through a C \<^verbatim>\<open>FILE *\<close>.  The stream is modelled by
  the bytes of the file, the read position, the end-of-file indicator, and the offset (if
  any) from which the device stops delivering bytes: C's \<^verbatim>\<open>fread\<close> may come back short
  without end-of-file, and the source tells the two apart (\<^verbatim>\<open>feof\<close> against
  \<^verbatim>\<open>count != 1\<close>).  An ordinary file has \<open>bad_from = None\<close>.
\<close>

type_synonym byte = "8 word"

record stream =
  content :: "byte list"
  pos :: nat
  eof :: bool
  bad_from :: "nat option"

definition open_file :: "byte list \<Rightarrow> nat option \<Rightarrow> stream" where
  "open_file bs bad = \<lparr>content = bs, pos = 0, eof = False, bad_from = bad\<rparr>"

definition readable :: "stream \<Rightarrow> nat" where
  "readable fp = (case bad_from fp of None \<Rightarrow> length (content fp)
                  | Some k \<Rightarrow> min k (length (content fp)))"

text \<open>
  \<^verbatim>\<open>fread(buf, 1, n, fp)\<close>: the bytes delivered (at most \<open>n\<close>) and the stream after the
  call.  The end-of-file indicator is set when the request ran into the end of the file.
\<close>

definition fread :: "nat \<Rightarrow> stream \<Rightarrow> byte list \<times> stream" where
  "fread n fp =
     (let k = min n (readable fp - pos fp);
          bs = take k (drop (pos fp) (content fp))
      in (bs, fp\<lparr>pos := pos fp + k,
                 eof := (eof fp \<or> (k < n \<and> readable fp = length (content fp)))\<rparr>))"

text \<open>
  \<^verbatim>\<open>fread(buf, size, 1, fp)\<close>: the number of complete items (0 or 1; 0 when the size is 0,
  as C defines it), the bytes delivered and the stream.
\<close>

definition fread_item :: "nat \<Rightarrow> stream \<Rightarrow> nat \<times> byte list \<times> stream" where
  "fread_item sz fp =
     (let (bs, fp') = fread sz fp
      in ((if 0 < sz \<and> length bs = sz then 1 else 0), bs, fp'))"

datatype whence = SEEK_SET | SEEK_CUR | SEEK_END

text \<open>
  \<^verbatim>\<open>fseek\<close> and \<^verbatim>\<open>jtr_fseek64\<close> (a 64-bit \<^verbatim>\<open>fseek\<close> declared in \<^verbatim>\<open>jumbo.h\<close>): a
  negative target fails and leaves the stream alone; the source never looks at the
  result.  A successful seek clears the end-of-file indicator and may go past the end.
\<close>

definition fseek :: "stream \<Rightarrow> int \<Rightarrow> whence \<Rightarrow> stream" where
  "fseek fp off wh =
     (let base = (case wh of SEEK_SET \<Rightarrow> 0 | SEEK_CUR \<Rightarrow> int (pos fp)
                   | SEEK_END \<Rightarrow> int (length (content fp)));
          target = base + off
      in if target < 0 then fp else fp\<lparr>pos := nat target, eof := False\<rparr>)"

text \<open>The conversion of an unsigned value to the signed 64-bit offset of \<^verbatim>\<open>jtr_fseek64\<close>.\<close>

definition to_off64 :: "nat \<Rightarrow> int" where
  "to_off64 n = (let m = n mod 2 ^ 64 in if m < 2 ^ 63 then int m else int m - 2 ^ 64)"

section \<open>The RAR5 readers\<close>

text \<open>
  Each reader returns what the C function returns, the value stored through its result
  pointer, the caller's bytes-consumed counter and the stream.
\<close>

definition read_uint32 :: "stream \<Rightarrow> 32 word \<Rightarrow> int \<times> 32 word \<times> 32 word \<times> stream" where
  "read_uint32 fp bytes_read =
     (let (Buf, fp') = fread 4 fp
      in if length Buf < 4 then (0, 0, bytes_read, fp')
         else (4,
               ucast (Buf ! 0) + push_bit 8 (ucast (Buf ! 1))
                 + push_bit 16 (ucast (Buf ! 2)) + push_bit 24 (ucast (Buf ! 3)),
               bytes_read + 4, fp'))"

definition read_uint8 :: "stream \<Rightarrow> byte \<Rightarrow> 32 word \<Rightarrow> int \<times> byte \<times> 32 word \<times> stream" where
  "read_uint8 fp n bytes_read =
     (let (Buf, fp') = fread 1 fp
      in if length Buf < 1 then (0, n, bytes_read, fp')
         else (1, Buf ! 0, bytes_read + 1, fp'))"

text \<open>
  \<^verbatim>\<open>read_buf\<close>: \<open>sz\<close> is the width in bits of \<^verbatim>\<open>size_t\<close>, to which the \<^verbatim>\<open>int len\<close> is
  converted for \<^verbatim>\<open>fread\<close>.  The bytes delivered overwrite the front of the buffer
  \<open>cp\<close>; the rest of the buffer keeps what it held.
\<close>

definition read_buf ::
  "nat \<Rightarrow> stream \<Rightarrow> byte list \<Rightarrow> int \<Rightarrow> 32 word \<Rightarrow> int \<times> byte list \<times> 32 word \<times> stream" where
  "read_buf sz fp cp len bytes_read =
     (let (bs, fp') = fread (nat (len mod 2 ^ sz)) fp
      in if length bs < 1 then (0, cp, bytes_read, fp')
         else (len, bs @ drop (length bs) cp, bytes_read + word_of_int len, fp'))"

text \<open>
  \<^verbatim>\<open>read_vuint\<close>: the loop over \<open>i = 0 .. 9\<close>; \<open>n\<close> is the value accumulated so far.
\<close>

function read_vuint_loop ::
  "nat \<Rightarrow> 64 word \<Rightarrow> 32 word \<Rightarrow> stream \<Rightarrow> int \<times> 64 word \<times> 32 word \<times> stream" where
  "read_vuint_loop i n bytes_read fp =
     (if 10 \<le> i then (0, n, bytes_read, fp)
      else
        let (bs, fp') = fread 1 fp
        in if length bs \<noteq> 1 then (0, n, bytes_read, fp')
           else
             let c = bs ! 0;
                 n' = n + push_bit (7 * i) (ucast (c AND 0x7f))
             in if c AND 0x80 = 0
                then (int i + 1, n', bytes_read + of_nat (i + 1), fp')
                else read_vuint_loop (i + 1) n' bytes_read fp')"
  by pat_completeness auto
termination
  by (relation "measure (\<lambda>(i, n, b, fp). 10 - i)") auto

declare read_vuint_loop.simps [simp del]

definition read_vuint :: "stream \<Rightarrow> 32 word \<Rightarrow> int \<times> 64 word \<times> 32 word \<times> stream" where
  "read_vuint fp bytes_read = read_vuint_loop 0 0 bytes_read fp"

section \<open>Environment, diagnostics and program state\<close>

text \<open>
  What the program takes from outside \<^verbatim>\<open>rar2john.c\<close>: the command line, the build and
  the helpers and constants of headers that are not among the sources.
\<close>

record env =
  verbose :: bool
  size_bits :: nat \<comment> \<open>width in bits of the build's \<^verbatim>\<open>size_t\<close>\<close>
  LINE_BUFFER_SIZE :: nat \<comment> \<open>\<^verbatim>\<open>params.h\<close>\<close>
  archive_name :: string
  base_aname :: string \<comment> \<open>\<^verbatim>\<open>basename(archive_name)\<close>\<close>
  DecodeFileName :: "byte list \<Rightarrow> 16 word list"
    \<comment> \<open>the wide name decoded from the bytes of \<^verbatim>\<open>file_name\<close>, without its final NUL\<close>
  utf16_to_utf8_r :: "16 word list \<Rightarrow> byte list" \<comment> \<open>\<^verbatim>\<open>unicode.h\<close>\<close>
  b64_hex :: "byte list \<Rightarrow> string"
    \<comment> \<open>\<^verbatim>\<open>base64_convert_cp\<close> from \<^verbatim>\<open>e_b64_raw\<close> to \<^verbatim>\<open>e_b64_hex\<close>\<close>
  sha256 :: "byte list \<Rightarrow> byte list"
  CRYPT_VERSION :: "64 word"
  CHFL_CRYPT_PSWCHECK :: "64 word"
  MHFL_VOLNUMBER :: "64 word"
  FHFL_UTIME :: "64 word"
  FHFL_CRC32 :: "64 word"
  indeterminate :: "string \<Rightarrow> nat \<Rightarrow> byte"
    \<comment> \<open>the byte a local array declared without initialiser holds at an index\<close>

text \<open>
  C leaves a local array that is declared without initialiser indeterminate.  What such
  an array holds before it is written is a parameter of the environment, given by the
  name of the array; no theorem makes an assumption on it.
\<close>

definition local_array :: "env \<Rightarrow> string \<Rightarrow> nat \<Rightarrow> byte list" where
  "local_array env name n = map (indeterminate env name) [0..<n]"

text \<open>One constructor for each kind of message the program writes to the standard error
  stream.\<close>

datatype diag =
    Blank_line
  | Not_a_RAR_file
  | Too_old_RAR_version
  | Read_failed
  | Bad_archive_header_tag
  | End_of_file
  | Comment_block_present
  | Not_recognising_more_headers
  | Hp_mode_entry_found
  | Flag_8000_unset
  | Head_sizes
  | High_size_bytes
  | High_sizes_present
  | Unsupported_64bit_sizes
  | File_name_size
  | Check_fread_failed
  | Encoded_filenames
  | Oem_name_shown
  | File_name_shown
  | Ext_time_present
  | Solid_cannot_handle
  | Is_a_directory
  | Dictionary_size
  | Not_encrypted
  | Better_candidate_already
  | Best_candidate_so_far
  | Salt_shown
  | Unp_ver_shown
  | Method_shown
  | Error_while_reading_archive
  | Found_valid_candidate
  | Warning_candidate_too_small
  | Did_not_find_candidate
  | UsePswCheck_is_off
  | Lg2Count_too_large
  | Too_short_for_IV

text \<open>
  The standard output (one element for each call of \<^verbatim>\<open>printf\<close> or \<^verbatim>\<open>puts\<close>), the
  standard error, and the global variables of the RAR5 part.
\<close>

record world =
  out :: "string list"
  diags :: "diag list"
  Encrypted :: bool
  PswCheck :: "byte list"
  rar5_interations :: "32 word"
  UsePswCheck :: bool
  rar5_salt :: "byte list"

definition say :: "diag \<Rightarrow> 'a world_scheme \<Rightarrow> 'a world_scheme" where
  "say d w = w\<lparr>diags := diags w @ [d]\<rparr>"

definition say_if :: "bool \<Rightarrow> diag \<Rightarrow> 'a world_scheme \<Rightarrow> 'a world_scheme" where
  "say_if b d w = (if b then say d w else w)"

definition print :: "string \<Rightarrow> 'a world_scheme \<Rightarrow> 'a world_scheme" where
  "print s w = w\<lparr>out := out w @ [s]\<rparr>"

text \<open>The state of the program at start: nothing written, the globals zero.\<close>

definition initial_world :: world where
  "initial_world =
     \<lparr>out = [], diags = [], Encrypted = False, PswCheck = replicate 12 0,
      rar5_interations = 0, UsePswCheck = False, rar5_salt = replicate 16 0\<rparr>"

section \<open>Text formatting\<close>

definition newline :: string where
  "newline = [CHR 0x0A]"

text \<open>Modelled from the spec: \<^verbatim>\<open>itoa16\<close> of \<^verbatim>\<open>common.h\<close>, the lowercase base-16 digits.\<close>

definition itoa16 :: string where
  "itoa16 = ''0123456789abcdef''"

definition hex_byte :: "byte \<Rightarrow> string" where
  "hex_byte b = [itoa16 ! unat (drop_bit 4 b), itoa16 ! unat (b AND 0x0f)]"

definition hex_bytes :: "byte list \<Rightarrow> string" where
  "hex_bytes bs = concat (map hex_byte bs)"

fun show_nat :: "nat \<Rightarrow> string" where
  "show_nat n = (if n < 10 then [''0123456789'' ! n]
                 else show_nat (n div 10) @ [''0123456789'' ! (n mod 10)])"

declare show_nat.simps [simp del]

definition show_int :: "int \<Rightarrow> string" where
  "show_int i = (if i < 0 then ''-'' @ show_nat (nat (- i)) else show_nat (nat i))"

section \<open>RAR5 constants\<close>

text \<open>Modelled from the spec: the RAR5 header types of \<^verbatim>\<open>rar2john.h\<close>.\<close>

definition HEAD_MAIN :: byte where "HEAD_MAIN = 1"
definition HEAD_FILE :: byte where "HEAD_FILE = 2"
definition HEAD_SERVICE :: byte where "HEAD_SERVICE = 3"
definition HEAD_CRYPT :: byte where "HEAD_CRYPT = 4"
definition HEAD_ENDARC :: byte where "HEAD_ENDARC = 5"

text \<open>Modelled from the spec: the header flags of \<^verbatim>\<open>rar2john.h\<close> for the extra-area size
  and the data size.\<close>

definition HFL_EXTRA :: "64 word" where "HFL_EXTRA = 1"
definition HFL_DATA :: "64 word" where "HFL_DATA = 2"

text \<open>Modelled from the spec: the extra-record type \<^verbatim>\<open>crypt\<close> and its password-check
  flag, of \<^verbatim>\<open>rar2john.h\<close>.\<close>

definition FHEXTRA_CRYPT :: "64 word" where "FHEXTRA_CRYPT = 1"
definition FHEXTRA_CRYPT_PSWCHECK :: "64 word" where "FHEXTRA_CRYPT_PSWCHECK = 1"

text \<open>Modelled from the spec: the largest supported log2 of the iteration count, of
  \<^verbatim>\<open>rar2john.h\<close>.\<close>

definition CRYPT5_KDF_LG2_COUNT_MAX :: byte where "CRYPT5_KDF_LG2_COUNT_MAX = 24"

text \<open>Modelled from the spec: the field sizes of \<^verbatim>\<open>rar2john.h\<close>.\<close>

definition SIZE_SALT50 :: nat where "SIZE_SALT50 = 16"
definition SIZE_INITV :: nat where "SIZE_INITV = 16"
definition SIZE_PSWCHECK :: nat where "SIZE_PSWCHECK = 12"
definition SIZE_PSWCHECK_CSUM :: nat where "SIZE_PSWCHECK_CSUM = 4"

section \<open>The RAR5 parser\<close>

record r5_state = world +
  arc :: stream
  found :: int

text \<open>The line both RAR5 paths print with one \<^verbatim>\<open>printf\<close>.\<close>

definition rar5_record :: "env \<Rightarrow> byte list \<Rightarrow> int \<Rightarrow> byte list \<Rightarrow> byte list \<Rightarrow> string" where
  "rar5_record env salt lg2 iv psw =
     base_aname env @ '':$rar5$'' @ show_nat SIZE_SALT50 @ ''$''
       @ b64_hex env (take SIZE_SALT50 salt) @ ''$'' @ show_int lg2 @ ''$''
       @ b64_hex env (take SIZE_INITV iv) @ ''$'' @ show_nat SIZE_PSWCHECK @ ''$''
       @ b64_hex env (take SIZE_PSWCHECK psw) @ newline"

text \<open>
  The body of \<^verbatim>\<open>if (FieldType == FHEXTRA_CRYPT)\<close> in \<^verbatim>\<open>ProcessExtra50\<close>.  Every path
  returns 0.  \<^verbatim>\<open>InitV\<close> is a local array without initialiser: a read that comes back
  short leaves its tail indeterminate.
\<close>

definition extra_crypt_record :: "env \<Rightarrow> 32 word \<Rightarrow> r5_state \<Rightarrow> int \<times> r5_state" where
  "extra_crypt_record env bytes_read st =
     (let (r1, EncVersion, br1, fp1) = read_vuint (arc st) bytes_read
      in if r1 = 0 then (0, st\<lparr>arc := fp1\<rparr>)
      else
      let (r2, Flags, br2, fp2) = read_vuint fp1 br1
      in if r2 = 0 then (0, st\<lparr>arc := fp2\<rparr>)
      else if Flags AND FHEXTRA_CRYPT_PSWCHECK = 0
      then (0, say UsePswCheck_is_off (st\<lparr>arc := fp2\<rparr>))
      else
      let (r3, Lg2Count, br3, fp3) = read_uint8 fp2 0 br2
      in if r3 = 0 then (0, st\<lparr>arc := fp3\<rparr>)
      else if CRYPT5_KDF_LG2_COUNT_MAX \<le> Lg2Count
      then (0, say Lg2Count_too_large (st\<lparr>arc := fp3\<rparr>))
      else
      let (r4, salt, br4, fp4) =
            read_buf (size_bits env) fp3 (rar5_salt st) (int SIZE_SALT50) br3
      in if r4 = 0 then (0, st\<lparr>arc := fp4\<rparr>)
      else
      let (r5, InitV, br5, fp5) =
            read_buf (size_bits env) fp4 (local_array env ''InitV'' SIZE_INITV)
              (int SIZE_INITV) br4
      in if r5 = 0 then (0, st\<lparr>arc := fp5, rar5_salt := salt\<rparr>)
      else
      let (r6, psw, br6, fp6) =
            read_buf (size_bits env) fp5 (PswCheck st) (int SIZE_PSWCHECK) br5
      in if r6 = 0 then (0, st\<lparr>arc := fp6, rar5_salt := salt\<rparr>)
      else
        (0, print (rar5_record env salt (uint Lg2Count) InitV psw)
              (st\<lparr>arc := fp6, rar5_salt := salt, PswCheck := psw,
                  found := found st + 1\<rparr>)))"

text \<open>
  \<^verbatim>\<open>ProcessExtra50\<close>: the \<^verbatim>\<open>while (1)\<close> loop.  \<open>bytes_left\<close> is the C \<^verbatim>\<open>int\<close>, held as
  a 32-bit word that is read signed.  Every iteration takes at least one byte from the
  stream or returns, which is why the loop ends.
\<close>

function ProcessExtra50_loop ::
  "env \<Rightarrow> byte \<Rightarrow> 32 word \<Rightarrow> 32 word \<Rightarrow> r5_state \<Rightarrow> int \<times> r5_state" where
  "ProcessExtra50_loop env HeaderType bytes_left bytes_read st =
     (let (len, FieldSize, br1, fp1) = read_vuint (arc st) bytes_read
      in if len = 0 \<or> 3 < len then (0, st\<lparr>arc := fp1\<rparr>)
      else
      let bytes_left' = bytes_left - word_of_int len - ucast FieldSize
      in if sint bytes_left' < 0 then (0, st\<lparr>arc := fp1\<rparr>)
      else
      let (r2, FieldType, br2, fp2) = read_vuint fp1 br1
      in if r2 = 0 then (0, st\<lparr>arc := fp2\<rparr>)
      else if (HeaderType = HEAD_FILE \<or> HeaderType = HEAD_SERVICE)
              \<and> FieldType = FHEXTRA_CRYPT
      then extra_crypt_record env br2 (st\<lparr>arc := fp2\<rparr>)
      else ProcessExtra50_loop env HeaderType bytes_left' br2 (st\<lparr>arc := fp2\<rparr>))"
  by pat_completeness auto
termination
proof -
  have step: "\<And>i n br fp r v br' fp'.
      read_vuint_loop i n br fp = (r, v, br', fp') \<Longrightarrow>
      readable fp' = readable fp \<and> pos fp \<le> pos fp' \<and>
      (r \<noteq> 0 \<longrightarrow> pos fp < pos fp' \<and> pos fp' \<le> readable fp)"
  proof -
    fix i n br fp r v br' fp'
    show "read_vuint_loop i n br fp = (r, v, br', fp') \<Longrightarrow>
      readable fp' = readable fp \<and> pos fp \<le> pos fp' \<and>
      (r \<noteq> 0 \<longrightarrow> pos fp < pos fp' \<and> pos fp' \<le> readable fp)"
    proof (induction i n br fp arbitrary: r v br' fp' rule: read_vuint_loop.induct)
      case (1 i n bytes_read fp)
      obtain bs fq where f: "fread 1 fp = (bs, fq)" by (cases "fread 1 fp")
      have q: "readable fq = readable fp" "pos fq = pos fp + length bs"
        "length bs = min 1 (readable fp - pos fp)"
        using f by (auto simp: fread_def Let_def readable_def split: option.splits)
      show ?case
      proof (cases "10 \<le> i")
        case True
        with "1.prems" show ?thesis
          by (subst (asm) read_vuint_loop.simps) simp
      next
        case ni: False
        show ?thesis
        proof (cases "length bs \<noteq> 1")
          case True
          with "1.prems" ni f q show ?thesis
            by (subst (asm) read_vuint_loop.simps) (auto simp: Let_def)
        next
          case one: False
          show ?thesis
          proof (cases "(bs ! 0) AND 0x80 = 0")
            case True
            with "1.prems" ni f q one show ?thesis
              by (subst (asm) read_vuint_loop.simps) (auto simp: Let_def)
          next
            case False
            with "1.prems" ni f one have
              rec: "read_vuint_loop (i + 1)
                      (n + push_bit (7 * i) (ucast ((bs ! 0) AND 0x7f))) bytes_read fq
                    = (r, v, br', fp')"
              by (subst (asm) read_vuint_loop.simps) (simp add: Let_def)
            from "1.IH" [OF ni refl f [symmetric] one refl refl False rec]
            have "readable fp' = readable fq \<and> pos fq \<le> pos fp' \<and>
                  (r \<noteq> 0 \<longrightarrow> pos fq < pos fp' \<and> pos fp' \<le> readable fq)"
              by simp
            with q one show ?thesis by auto
          qed
        qed
      qed
    qed
  qed
  show ?thesis
    apply (relation "measure (\<lambda>(env, ht, bl, br, st). readable (arc st) - pos (arc st))")
     apply simp
    subgoal premises p for env HeaderType bytes_left bytes_read st x xa y xb ya xc yb xd xe xf yc xg yd xh ye
    proof -
      from p have r1: "read_vuint_loop 0 0 bytes_read (arc st) = (xa, xb, xc, yb)"
        by (simp add: read_vuint_def)
      from p have r2: "read_vuint_loop 0 0 xc yb = (xf, xg, xh, ye)"
        by (simp add: read_vuint_def)
      from step [OF r1] p have p1: "readable yb = readable (arc st)"
        "pos (arc st) < pos yb" "pos yb \<le> readable (arc st)" by auto
      from step [OF r2] p have p2: "readable ye = readable yb" "pos yb < pos ye"
        "pos ye \<le> readable yb" by auto
      from p1 p2 show ?thesis by simp
    qed
    done
qed

declare ProcessExtra50_loop.simps [simp del]

definition ProcessExtra50 :: "env \<Rightarrow> 64 word \<Rightarrow> byte \<Rightarrow> r5_state \<Rightarrow> int \<times> r5_state" where
  "ProcessExtra50 env extra_size HeaderType st =
     ProcessExtra50_loop env HeaderType (ucast extra_size) 0 st"

text \<open>
  The fields every RAR5 header starts with, up to the optional data size:
  \<open>(HeadSize, header_type, extra_size, data_size)\<close> when all reads succeed.
\<close>

definition read_header_fields ::
  "stream \<Rightarrow> (64 word \<times> byte \<times> 64 word \<times> 64 word) option \<times> 32 word \<times> stream" where
  "read_header_fields fp =
     (let (r1, head_crc, br1, fp1) = read_uint32 fp 0
      in if r1 = 0 then (None, br1, fp1)
      else
      let (sizeof_vint, block_size, br2, fp2) = read_vuint fp1 br1
      in if sizeof_vint = 0 then (None, br2, fp2)
      else
      let HeadSize = block_size + 4 + word_of_int sizeof_vint;
          (r3, header_type, br3, fp3) = read_uint8 fp2 0 br2
      in if r3 = 0 then (None, br3, fp3)
      else
      let (r4, flags, br4, fp4) = read_vuint fp3 br3
      in if r4 = 0 then (None, br4, fp4)
      else
      let (r5, extra_size, br5, fp5) =
            (if flags AND HFL_EXTRA \<noteq> 0 then read_vuint fp4 br4 else (1, 0, br4, fp4))
      in if r5 = 0 then (None, br5, fp5)
      else
      let (r6, data_size, br6, fp6) =
            (if flags AND HFL_DATA \<noteq> 0 then read_vuint fp5 br5 else (1, 0, br5, fp5))
      in if r6 = 0 then (None, br6, fp6)
      else (Some (HeadSize, header_type, extra_size, data_size), br6, fp6))"

text \<open>
  The branch \<^verbatim>\<open>header_type == HEAD_CRYPT\<close>; \<open>False\<close> stands for \<^verbatim>\<open>return 0\<close>.  The
  two complaints of this branch go to the standard output.  \<^verbatim>\<open>chksum\<close> is a local
  array without initialiser.
\<close>

definition crypt_block :: "env \<Rightarrow> 32 word \<Rightarrow> r5_state \<Rightarrow> bool \<times> r5_state" where
  "crypt_block env bytes_read st =
     (let (r1, crypt_version, br1, fp1) = read_vuint (arc st) bytes_read
      in if r1 = 0 then (False, st\<lparr>arc := fp1\<rparr>)
      else if CRYPT_VERSION env < crypt_version
      then (False, print (''bad rar crypt version byte'' @ newline) (st\<lparr>arc := fp1\<rparr>))
      else
      let (r2, enc_flags, br2, fp2) = read_vuint fp1 br1
      in if r2 = 0 then (False, st\<lparr>arc := fp2\<rparr>)
      else
      let use = (enc_flags AND CHFL_CRYPT_PSWCHECK env \<noteq> 0);
          (r3, lg_2count, br3, fp3) = read_uint8 fp2 0 br2
      in if r3 = 0 then (False, st\<lparr>arc := fp3, UsePswCheck := use\<rparr>)
      else if CRYPT5_KDF_LG2_COUNT_MAX < lg_2count
      then (False, print (''rar PBKDF2 iteration count too large'' @ newline)
                     (st\<lparr>arc := fp3, UsePswCheck := use\<rparr>))
      else
      let (r4, salt, br4, fp4) =
            read_buf (size_bits env) fp3 (rar5_salt st) (int SIZE_SALT50) br3;
          st4 = st\<lparr>arc := fp4, UsePswCheck := use, rar5_interations := ucast lg_2count,
                   rar5_salt := salt\<rparr>
      in if r4 = 0 then (False, st4)
      else if use then
        let (r5, psw, br5, fp5) =
              read_buf (size_bits env) fp4 (PswCheck st) (int SIZE_PSWCHECK) br4
        in if r5 = 0 then (False, st4\<lparr>arc := fp5\<rparr>)
        else
        let (r6, chksum, br6, fp6) =
              read_buf (size_bits env) fp5 (local_array env ''chksum'' SIZE_PSWCHECK_CSUM)
                (int SIZE_PSWCHECK_CSUM) br5
        in if r6 = 0 then (False, st4\<lparr>arc := fp6, PswCheck := psw\<rparr>)
        else
          (True, st4\<lparr>arc := fp6, PswCheck := psw,
                     UsePswCheck :=
                       (take SIZE_PSWCHECK_CSUM (sha256 env (take SIZE_PSWCHECK psw))
                          = take SIZE_PSWCHECK_CSUM chksum),
                     Encrypted := True\<rparr>)
      else (True, st4\<lparr>Encrypted := True\<rparr>))"

text \<open>The branch \<^verbatim>\<open>header_type == HEAD_MAIN\<close>.\<close>

definition main_block :: "env \<Rightarrow> 32 word \<Rightarrow> r5_state \<Rightarrow> bool \<times> r5_state" where
  "main_block env bytes_read st =
     (let (r1, ArcFlags, br1, fp1) = read_vuint (arc st) bytes_read
      in if r1 = 0 then (False, st\<lparr>arc := fp1\<rparr>)
      else if ArcFlags AND MHFL_VOLNUMBER env \<noteq> 0 then
        let (r2, VolNumber, br2, fp2) = read_vuint fp1 br1
        in if r2 = 0 then (False, st\<lparr>arc := fp2\<rparr>) else (True, st\<lparr>arc := fp2\<rparr>)
      else (True, st\<lparr>arc := fp1\<rparr>))"

text \<open>
  The branch for \<^verbatim>\<open>HEAD_FILE\<close> and \<^verbatim>\<open>HEAD_SERVICE\<close>: the fixed fields, the seek over
  the name, and the extra area.  What \<^verbatim>\<open>ProcessExtra50\<close> returns is not looked at.
\<close>

definition file_block ::
  "env \<Rightarrow> byte \<Rightarrow> 64 word \<Rightarrow> 32 word \<Rightarrow> r5_state \<Rightarrow> bool \<times> r5_state" where
  "file_block env header_type extra_size bytes_read st =
     (let (r1, FileFlags, br1, fp1) = read_vuint (arc st) bytes_read
      in if r1 = 0 then (False, st\<lparr>arc := fp1\<rparr>)
      else
      let (r2, UnpSize, br2, fp2) = read_vuint fp1 br1
      in if r2 = 0 then (False, st\<lparr>arc := fp2\<rparr>)
      else
      let (r3, FileAttr, br3, fp3) = read_vuint fp2 br2
      in if r3 = 0 then (False, st\<lparr>arc := fp3\<rparr>)
      else
      let (r4, tmp, br4, fp4) =
            (if FileFlags AND FHFL_UTIME env \<noteq> 0 then read_uint32 fp3 br3
             else (4, 0, br3, fp3))
      in if r4 = 0 then (False, st\<lparr>arc := fp4\<rparr>)
      else
      let (r5, FileHashCRC32, br5, fp5) =
            (if FileFlags AND FHFL_CRC32 env \<noteq> 0 then read_uint32 fp4 br4
             else (4, 0, br4, fp4))
      in if r5 = 0 then (False, st\<lparr>arc := fp5\<rparr>)
      else
      let (r6, CompInfo, br6, fp6) = read_vuint fp5 br5
      in if r6 = 0 then (False, st\<lparr>arc := fp6\<rparr>)
      else
      let (r7, HostOS, br7, fp7) = read_vuint fp6 br6
      in if r7 = 0 then (False, st\<lparr>arc := fp7\<rparr>)
      else
      let (r8, NameSize, br8, fp8) = read_vuint fp7 br7
      in if r8 = 0 then (False, st\<lparr>arc := fp8\<rparr>)
      else
      let st9 = st\<lparr>arc := fseek fp8 (to_off64 (unat NameSize)) SEEK_CUR\<rparr>
      in if extra_size \<noteq> 0
         then (True, snd (ProcessExtra50 env extra_size header_type st9))
         else (True, st9))"

text \<open>
  \<^verbatim>\<open>read_rar5_header\<close>: the position of the next block (0 to stop), the type of the
  header that was dispatched (\<open>None\<close> when the function returns before), and the state.
  \<^verbatim>\<open>HeadersInitV\<close> is a local array without initialiser: when the read of the IV
  delivers fewer than 16 bytes (one is enough for \<^verbatim>\<open>read_buf\<close> to return 16), the rest
  of the IV that is printed is indeterminate.
\<close>

definition read_rar5_header :: "env \<Rightarrow> nat \<Rightarrow> r5_state \<Rightarrow> nat \<times> byte option \<times> r5_state" where
  "read_rar5_header env CurBlockPos st =
     (if Encrypted st then
        let (sizeof_vint, HeadersInitV, br, fp1) =
              read_buf (size_bits env) (arc st) (local_array env ''HeadersInitV'' SIZE_INITV)
                (int SIZE_INITV) 0
        in if sizeof_vint \<noteq> int SIZE_INITV
           then (0, None, say Too_short_for_IV (st\<lparr>arc := fp1\<rparr>))
           else (0, None,
                 print (rar5_record env (rar5_salt st) (sint (rar5_interations st))
                          HeadersInitV (PswCheck st))
                   (st\<lparr>arc := fp1, found := found st + 1\<rparr>))
      else
        case read_header_fields (arc st) of
          (None, br, fp1) \<Rightarrow> (0, None, st\<lparr>arc := fp1\<rparr>)
        | (Some (HeadSize, header_type, extra_size, data_size), br, fp1) \<Rightarrow>
            let st1 = st\<lparr>arc := fp1\<rparr>;
                next_pos = (CurBlockPos + unat HeadSize + unat data_size) mod 2 ^ 64
                             mod 2 ^ size_bits env
            in if header_type = HEAD_CRYPT then
                 (case crypt_block env br st1 of
                    (False, st2) \<Rightarrow> (0, Some header_type, st2)
                  | (True, st2) \<Rightarrow> (next_pos, Some header_type, st2))
               else if header_type = HEAD_MAIN then
                 (case main_block env br st1 of
                    (False, st2) \<Rightarrow> (0, Some header_type, st2)
                  | (True, st2) \<Rightarrow> (next_pos, Some header_type, st2))
               else if header_type = HEAD_FILE \<or> header_type = HEAD_SERVICE then
                 (case file_block env header_type extra_size br st1 of
                    (False, st2) \<Rightarrow> (0, Some header_type, st2)
                  | (True, st2) \<Rightarrow> (next_pos, Some header_type, st2))
               else if header_type = HEAD_ENDARC then (0, Some header_type, st1)
               else (next_pos, Some header_type, st1))"

section \<open>Magics and the scan of a self-extracting archive\<close>

definition CHUNK_SIZE :: nat where "CHUNK_SIZE = 4096"

definition RAR_OLD_MAGIC :: "byte list" where
  "RAR_OLD_MAGIC = [0x52, 0x45, 0x7e, 0x5e]"

definition RAR3_MAGIC :: "byte list" where
  "RAR3_MAGIC = [0x52, 0x61, 0x72, 0x21, 0x1a, 0x07, 0x00]"

definition RAR5_MAGIC :: "byte list" where
  "RAR5_MAGIC = [0x52, 0x61, 0x72, 0x21, 0x1a, 0x07, 0x01, 0x00]"

definition MZ :: "byte list" where
  "MZ = [0x4d, 0x5a]"

text \<open>\<^verbatim>\<open>memmem\<close>: the offset of the first occurrence of the needle.\<close>

fun memmem :: "byte list \<Rightarrow> byte list \<Rightarrow> nat option" where
  "memmem [] needle = (if needle = [] then Some 0 else None)"
| "memmem (h # t) needle =
     (if take (length needle) (h # t) = needle then Some 0
      else map_option Suc (memmem t needle))"

text \<open>
  The offset \<^verbatim>\<open>1 - MAGIC_SIZE\<close> of the seek back between two windows: the subtraction
  is done in \<^verbatim>\<open>size_t\<close> and the result converted to the 64-bit offset.
\<close>

definition window_step_back :: "env \<Rightarrow> nat \<Rightarrow> int" where
  "window_step_back env magic_size =
     to_off64 (nat ((1 - int magic_size) mod 2 ^ size_bits env))"

text \<open>
  The loop \<^verbatim>\<open>while (!feof(fp))\<close> that looks for the magic behind an \<^verbatim>\<open>MZ\<close> stub.
  \<open>long_magic\<close> selects the RAR5 magic (in \<^verbatim>\<open>process_file5\<close>) or the RAR3 magic (in
  \<^verbatim>\<open>process_file\<close>).  The result is \<^verbatim>\<open>found\<close> and the stream.
\<close>

function sfx_scan :: "env \<Rightarrow> bool \<Rightarrow> stream \<Rightarrow> bool \<times> stream" where
  "sfx_scan env long_magic fp =
     (let magic = (if long_magic then RAR5_MAGIC else RAR3_MAGIC)
      in if eof fp then (False, fp)
         else
           let (buf, fp1) = fread CHUNK_SIZE fp;
               count = length buf
           in if count < length magic then (False, fp1)
              else
                case memmem buf magic of
                  Some p \<Rightarrow>
                    (True, fseek (fseek fp1 (- (int count - int p)) SEEK_CUR)
                             (int (length magic)) SEEK_CUR)
                | None \<Rightarrow>
                    if eof fp1 then (False, fp1)
                    else sfx_scan env long_magic
                           (fseek fp1 (window_step_back env (length magic)) SEEK_CUR))"
  by pat_completeness auto
termination
proof -
  have off_bound: "1 - int k \<le> to_off64 (nat ((1 - int k) mod 2 ^ sz))" if k: "1 \<le> k"
    for k sz
  proof -
    define x where "x = 1 - int k"
    define n where "n = nat (x mod 2 ^ sz)"
    have n: "int n = x mod 2 ^ sz" by (simp add: n_def)
    show ?thesis
    proof (cases "n mod 2 ^ 64 < 2 ^ 63")
      case True
      have "x \<le> 0" using k by (simp add: x_def)
      then have "x \<le> int (n mod 2 ^ 64)" by linarith
      then show ?thesis using True by (simp add: to_off64_def Let_def flip: n_def x_def)
    next
      case False
      then have big: "(2::int) ^ 63 \<le> int (n mod 2 ^ 64)" by simp
      have "64 \<le> sz"
      proof (rule ccontr)
        assume "\<not> 64 \<le> sz"
        then have "sz \<le> 63" by simp
        then have "(2::int) ^ sz \<le> 2 ^ 63" by (intro power_increasing) simp_all
        moreover have "int n < 2 ^ sz" by (simp add: n)
        moreover have "n mod 2 ^ 64 \<le> n" by simp
        then have "int (n mod 2 ^ 64) \<le> int n" by (simp only: of_nat_le_iff)
        ultimately show False using big by linarith
      qed
      then have "(2::int) ^ 64 dvd 2 ^ sz" by (intro le_imp_power_dvd)
      then have e: "int (n mod 2 ^ 64) = x mod 2 ^ 64"
        by (simp add: zmod_int n mod_mod_cancel)
      have neg: "x < 0"
      proof (rule ccontr)
        assume "\<not> x < 0"
        then have "0 \<le> x" "x < 2 ^ 64" by (simp_all add: x_def)
        then have "x mod 2 ^ 64 = x" by simp
        with e big show False by (simp add: x_def)
      qed
      then have "x div 2 ^ 64 < 0" by (simp add: neg_imp_zdiv_neg_iff)
      then have "x div 2 ^ 64 \<le> - 1" by simp
      then have "2 ^ 64 * (x div 2 ^ 64) \<le> (2 ^ 64 :: int) * (- 1)"
        by (intro mult_left_mono) simp_all
      moreover have "x mod 2 ^ 64 = x - 2 ^ 64 * (x div 2 ^ 64)"
        by (simp add: minus_mult_div_eq_mod)
      ultimately have "x \<le> x mod 2 ^ 64 - 2 ^ 64" by linarith
      then have "1 - int k \<le> int (n mod 2 ^ 64) - 2 ^ 64" using e by (simp add: x_def)
      then show ?thesis using False
        by (simp add: to_off64_def Let_def flip: n_def x_def)
    qed
  qed
  show ?thesis
    apply (relation "measure (\<lambda>(env, lm, fp). readable fp - pos fp)")
     apply simp
    subgoal premises p for env long_magic fp x xa xb y xaa
    proof -
      define k where "k = length (if long_magic then RAR5_MAGIC else RAR3_MAGIC)"
      have k: "1 \<le> k" by (simp add: k_def RAR5_MAGIC_def RAR3_MAGIC_def)
      from p have f: "fread CHUNK_SIZE fp = (xb, y)" by simp
      have y: "readable y = readable fp" "pos y = pos fp + length xb"
        "length xb = min CHUNK_SIZE (readable fp - pos fp)"
        using f by (auto simp: fread_def Let_def readable_def split: option.splits)
      from p have len: "k \<le> length xb" by (simp add: k_def)
      from off_bound [OF k, of "size_bits env"]
      have ob: "1 - int k \<le> window_step_back env k" by (simp add: window_step_back_def)
      have lt: "pos fp < readable fp" using y len k by linarith
      have tgt: "int (pos fp) < int (pos y) + window_step_back env k"
        using ob len y by linarith
      define F where "F = fseek y (window_step_back env k) SEEK_CUR"
      from tgt have "pos F = nat (int (pos y) + window_step_back env k)"
        and "readable F = readable y"
        by (simp_all add: F_def fseek_def Let_def readable_def split: option.splits)
      with tgt lt y have fin: "readable F - pos F < readable fp - pos fp" by linarith
      from p have xk: "length x = k" by (simp add: k_def)
      show ?thesis using fin xk by (simp add: F_def)
    qed
    done
qed

declare sfx_scan.simps [simp del]

section \<open>\<^verbatim>\<open>process_file5\<close>\<close>

definition r5_of_world :: "world \<Rightarrow> stream \<Rightarrow> r5_state" where
  "r5_of_world w fp =
     \<lparr>out = out w, diags = diags w, Encrypted = Encrypted w, PswCheck = PswCheck w,
      rar5_interations = rar5_interations w, UsePswCheck = UsePswCheck w,
      rar5_salt = rar5_salt w, arc = fp, found = 0\<rparr>"

definition world_of :: "'a world_scheme \<Rightarrow> world" where
  "world_of st =
     \<lparr>out = out st, diags = diags st, Encrypted = Encrypted st, PswCheck = PswCheck st,
      rar5_interations = rar5_interations st, UsePswCheck = UsePswCheck st,
      rar5_salt = rar5_salt st\<rparr>"

text \<open>
  The loop \<^verbatim>\<open>while (1)\<close> over the blocks.  Nothing in the source bounds it (the next
  block position is computed from the header and may be the current one), so the model
  counts the headers it may still read: \<open>True\<close> when the loop was left by \<^verbatim>\<open>break\<close>,
  \<open>False\<close> when the count ran out first, with the state reached so far.
\<close>

fun rar5_blocks :: "nat \<Rightarrow> env \<Rightarrow> r5_state \<Rightarrow> bool \<times> r5_state" where
  "rar5_blocks 0 env st = (False, st)"
| "rar5_blocks (Suc n) env st =
     (let CurBlockPos = pos (arc st) mod 2 ^ size_bits env;
          (NextBlockPos, HeaderType, st1) = read_rar5_header env CurBlockPos st
      in if NextBlockPos = 0 then (True, st1)
         else rar5_blocks n env
                (st1\<lparr>arc := fseek (arc st1) (to_off64 NextBlockPos) SEEK_SET\<rparr>))"

text \<open>
  \<^verbatim>\<open>process_file5\<close> on a file with the bytes \<open>bs\<close> (and device fault \<open>bad\<close>): what it
  returns (\<open>None\<close> while the block loop is still running when the count is used up) and
  the world.  The file is taken to exist, so \<^verbatim>\<open>fopen\<close> succeeds.
\<close>

definition process_file5 ::
  "nat \<Rightarrow> env \<Rightarrow> byte list \<Rightarrow> nat option \<Rightarrow> world \<Rightarrow> int option \<times> world" where
  "process_file5 fuel env bs bad w =
     (let (cnt, Magic, fp1) = fread_item (length RAR5_MAGIC) (open_file bs bad)
      in if cnt \<noteq> 1 then (Some 0, say Not_a_RAR_file w)
      else
      let (found_magic, fp2) =
            (if take 2 Magic = MZ then sfx_scan env True fp1 else (False, fp1))
      in if Magic \<noteq> RAR5_MAGIC \<and> \<not> found_magic then (Some 0, say Not_a_RAR_file w)
      else
        case rar5_blocks fuel env (r5_of_world w fp2) of
          (False, st) \<Rightarrow> (None, world_of st)
        | (True, st) \<Rightarrow>
            (Some 1, world_of (say_if (found st = 0) Did_not_find_candidate st)))"

section \<open>The RAR3 candidate selector\<close>

text \<open>
  \<^verbatim>\<open>bestsize\<close>, the sizes and method of the best candidate so far.  It starts as
  \<^verbatim>\<open>{ SIZE_MAX, SIZE_MAX }\<close>, the method zero.
\<close>

record bestsize_t =
  pack :: nat
  unp :: nat
  meth :: byte

definition SIZE_MAX :: "env \<Rightarrow> nat" where
  "SIZE_MAX env = 2 ^ size_bits env - 1"

definition initial_bestsize :: "env \<Rightarrow> bestsize_t" where
  "initial_bestsize env = \<lparr>pack = SIZE_MAX env, unp = SIZE_MAX env, meth = 0\<rparr>"

text \<open>
  The condition of the \<^verbatim>\<open>if\<close> that ends in ``We got a better candidate already,
  skipping'': the new entry, with the given sizes and method, is not admitted.
\<close>

definition better_candidate_already ::
  "env \<Rightarrow> bestsize_t \<Rightarrow> nat \<Rightarrow> nat \<Rightarrow> byte \<Rightarrow> bool" where
  "better_candidate_already env bestsize file_hdr_pack_size file_hdr_unp_size method =
     (pack bestsize < SIZE_MAX env \<and>
      (((pack bestsize < file_hdr_pack_size \<and>
         unp bestsize \<ge> (if meth bestsize > 0x30 then 4 else 1)) \<or>
        (unp bestsize > file_hdr_unp_size \<and>
         file_hdr_unp_size < (if method > 0x30 then 4 else 1))) \<or>
       (pack bestsize = file_hdr_pack_size \<and>
        ((unp bestsize > file_hdr_unp_size \<and> file_hdr_unp_size < 8) \<or>
         (unp bestsize \<le> file_hdr_unp_size \<and> unp bestsize \<ge> 8)))))"

text \<open>
  What the selector does to \<^verbatim>\<open>bestsize\<close> when an encrypted entry \<open>(packed size,
  unpacked size, method)\<close> is offered: the entry is skipped or it replaces the record.
\<close>

definition select_step :: "env \<Rightarrow> bestsize_t \<Rightarrow> nat \<times> nat \<times> byte \<Rightarrow> bestsize_t" where
  "select_step env b c =
     (case c of (p, u, m) \<Rightarrow>
        if better_candidate_already env b p u m then b else \<lparr>pack = p, unp = u, meth = m\<rparr>)"

section \<open>The RAR3 parser\<close>

record r3_state = world +
  src :: stream
  bestsize :: bestsize_t
  best :: "string option"
  best_len :: nat
  gecos :: string
  gecos_len :: nat

text \<open>The labels the code of \<^verbatim>\<open>process_file\<close> jumps to.\<close>

datatype label = next_file_header | BailOut | err

definition le16 :: "byte list \<Rightarrow> nat \<Rightarrow> 16 word" where
  "le16 b i = push_bit 8 (ucast (b ! (i + 1))) OR ucast (b ! i)"

definition le32 :: "byte list \<Rightarrow> nat \<Rightarrow> nat" where
  "le32 b i = ((unat (b ! (i + 3)) * 256 + unat (b ! (i + 2))) * 256 + unat (b ! (i + 1))) * 256
                + unat (b ! i)"

text \<open>\<^verbatim>\<open>strlen\<close> and the text of a NUL-terminated buffer.\<close>

definition c_string :: "byte list \<Rightarrow> byte list" where
  "c_string buf = takeWhile (\<lambda>b. b \<noteq> 0) buf"

definition chars_of :: "byte list \<Rightarrow> string" where
  "chars_of bs = map (\<lambda>b. char_of (unat b)) bs"

text \<open>
  \<^verbatim>\<open>hexdump\<close> writes to the standard output with one \<^verbatim>\<open>printf\<close> for the message, one
  for each byte, one for the blank after every fourth byte, and one for the line end.
\<close>

fun hexdump_bytes :: "nat \<Rightarrow> byte list \<Rightarrow> string list" where
  "hexdump_bytes i [] = []"
| "hexdump_bytes i (b # bs) =
     hex_byte b # (if i mod 4 = 3 then ['' ''] else []) @ hexdump_bytes (i + 1) bs"

definition hexdump :: "string \<Rightarrow> byte list \<Rightarrow> 'a world_scheme \<Rightarrow> 'a world_scheme" where
  "hexdump msg x w = w\<lparr>out := out w @ [msg @ '' : ''] @ hexdump_bytes 0 x @ [newline]\<rparr>"

text \<open>\<^verbatim>\<open>check_fread\<close>, with the sizes already converted to \<^verbatim>\<open>size_t\<close>.\<close>

definition check_fread :: "nat \<Rightarrow> nat \<Rightarrow> nat \<Rightarrow> bool" where
  "check_fread buf_size sz nmemb = (\<not> buf_size < sz * nmemb)"

text \<open>
  The \<^verbatim>\<open>-hp\<close> branch (\<^verbatim>\<open>type == 0\<close>): the record is printed piece by piece, the
  first piece before the seek to the last 24 bytes and their read.
\<close>

definition mode0_record :: "env \<Rightarrow> r3_state \<Rightarrow> label \<times> r3_state" where
  "mode0_record env st =
     (let st1 = print (base_aname env @ '':$RAR3$*'' @ show_int 0 @ ''*'')
                  (say_if (verbose env) Hp_mode_entry_found st);
          (cnt, buf, fp1) = fread_item 24 (fseek (src st1) (- 24) SEEK_END);
          st2 = st1\<lparr>src := fp1\<rparr>
      in if cnt \<noteq> 1 then (err, say Read_failed st2)
         else
           (err, st2\<lparr>out := out st2 @ map hex_byte (take 8 buf) @ [''*'']
                         @ map hex_byte (drop 8 buf)
                         @ ['':'' @ show_int 0 @ ''::::'' @ archive_name env @ newline]\<rparr>))"

text \<open>
  The two extra 32-bit words of a header with flag \<open>0x100\<close>: the sizes and
  \<^verbatim>\<open>ext_time_size\<close> after them, or \<open>None\<close> for \<^verbatim>\<open>goto err\<close>.  The sums are taken in 64
  bits and stored in the \<^verbatim>\<open>size_t\<close> variables.
\<close>

definition high_sizes ::
  "env \<Rightarrow> nat \<Rightarrow> nat \<Rightarrow> int \<Rightarrow> r3_state \<Rightarrow> (nat \<times> nat \<times> int) option \<times> r3_state" where
  "high_sizes env file_hdr_pack_size file_hdr_unp_size ext_time_size st =
     (let (c1, rejbuf1, fp1) = fread_item 4 (src st)
      in if c1 \<noteq> 1 then (None, say Read_failed (st\<lparr>src := fp1\<rparr>))
      else
      let st1 = say_if (verbose env) High_size_bytes (st\<lparr>src := fp1\<rparr>);
          pack' = (file_hdr_pack_size + le32 rejbuf1 0 * 2 ^ 32) mod 2 ^ 64
                    mod 2 ^ size_bits env;
          (c2, rejbuf2, fp2) = fread_item 4 fp1
      in if c2 \<noteq> 1 then (None, say Read_failed (st1\<lparr>src := fp2\<rparr>))
      else
      let st2 = say_if (verbose env) High_size_bytes (st1\<lparr>src := fp2\<rparr>);
          unp' = (file_hdr_unp_size + le32 rejbuf2 0 * 2 ^ 32) mod 2 ^ 64
                   mod 2 ^ size_bits env
      in if verbose env then
           (if size_bits env div 8 < 8
            then (None, say Unsupported_64bit_sizes (say High_sizes_present st2))
            else (Some (pack', unp', ext_time_size - 8), say High_sizes_present st2))
         else (Some (pack', unp', ext_time_size - 8), st2))"

text \<open>
  The file name: the read into the zeroed 1024-byte buffer, the optional decoding, the
  messages, and the copy of the name into \<^verbatim>\<open>gecos\<close>.  The result is \<open>False\<close> for
  \<^verbatim>\<open>goto err\<close>.  The buffer \<^verbatim>\<open>file_name\<close> is held by the bytes in front of its zeros:
  the name read, cut at 1023 bytes by \<^verbatim>\<open>file_name[sizeof(file_name) - 1] = 0\<close>.
\<close>

definition name_bytes_le :: "16 word list \<Rightarrow> byte list" where
  "name_bytes_le ws = concat (map (\<lambda>w. [ucast w, ucast (drop_bit 8 w)]) ws)"

definition add_to_gecos :: "env \<Rightarrow> byte list \<Rightarrow> r3_state \<Rightarrow> r3_state" where
  "add_to_gecos env name st =
     (if gecos_len st + length name < LINE_BUFFER_SIZE env
      then
        (let n = LINE_BUFFER_SIZE env - gecos_len st - 1
         in st\<lparr>gecos := (if n = 0 then gecos st
                          else gecos st @ take (n - 1) (chars_of name @ '' '')),
                gecos_len := gecos_len st + (length name + 1)\<rparr>)
      else st)"

definition entry_name :: "env \<Rightarrow> byte list \<Rightarrow> r3_state \<Rightarrow> bool \<times> r3_state" where
  "entry_name env file_hdr_block st =
     (let file_hdr_head_flags = le16 file_hdr_block 3;
          file_name_size = unat (le16 file_hdr_block 26);
          st0 = say_if (verbose env) File_name_size st
      in if \<not> check_fread 1024 file_name_size 1 then (False, say Check_fread_failed st0)
      else
      let (cnt, nm, fp1) = fread_item file_name_size (src st0);
          st1 = st0\<lparr>src := fp1\<rparr>
      in if cnt \<noteq> 1 then (False, say Read_failed st1)
      else
      let file_name = take 1023 nm
      in if file_hdr_head_flags AND 0x200 \<noteq> 0 then
           (let st2 = (if verbose env
                       then hexdump ''! Encoded filenames''
                              (file_name @ replicate (file_name_size - 1023) 0) st1
                       else st1);
                FileNameW = DecodeFileName env file_name
            in if FileNameW \<noteq> [] then
                 (let st3 = (if verbose env
                             then say Oem_name_shown
                                    (hexdump ''! UTF16 filename'' (name_bytes_le FileNameW) st2)
                             else st2)
                  in (True, add_to_gecos env (c_string (utf16_to_utf8_r env FileNameW))
                              (say File_name_shown st3)))
               else (True, add_to_gecos env (c_string file_name) (say File_name_shown st2)))
         else (True, add_to_gecos env (c_string file_name) (say File_name_shown st1)))"

text \<open>The salt and the extended time; \<open>None\<close> for \<^verbatim>\<open>goto err\<close>, else the salt.\<close>

definition entry_salt_and_time ::
  "env \<Rightarrow> 16 word \<Rightarrow> int \<Rightarrow> r3_state \<Rightarrow> byte list option \<times> r3_state" where
  "entry_salt_and_time env file_hdr_head_flags ext_time_size st =
     (let (ok1, salt, ext1, st1) =
            (if file_hdr_head_flags AND 0x400 \<noteq> 0 then
               (let (cnt, bs, fp1) = fread_item 8 (src st)
                in if cnt \<noteq> 1
                   then (False, replicate 8 0, ext_time_size - 8,
                         say Read_failed (st\<lparr>src := fp1\<rparr>))
                   else (True, bs, ext_time_size - 8, st\<lparr>src := fp1\<rparr>))
             else (True, replicate 8 0, ext_time_size, st))
      in if \<not> ok1 then (None, st1)
      else if file_hdr_head_flags AND 0x1000 \<noteq> 0 then
        (let st2 = say_if (verbose env) Ext_time_present st1
         in if \<not> check_fread 32 (nat (ext1 mod 2 ^ size_bits env)) 1
            then (None, say Check_fread_failed st2)
            else
              let (cnt, rejbuf, fp2) = fread_item (nat (ext1 mod 2 ^ size_bits env)) (src st2)
              in if cnt \<noteq> 1 then (None, say Read_failed (st2\<lparr>src := fp2\<rparr>))
                 else (Some salt, st2\<lparr>src := fp2\<rparr>))
      else (Some salt, st1))"

text \<open>
  The loop that reads the encrypted data in pieces of 64 KB and writes it in base 16.
  A piece that comes back short is reported and still written at its full length;
  the bytes that were not read are whatever the local array \<^verbatim>\<open>bytes\<close> held.  The
  results are the text, the number of reports, and the stream.
\<close>

function read_cipher :: "env \<Rightarrow> nat \<Rightarrow> stream \<Rightarrow> string \<times> nat \<times> stream" where
  "read_cipher env bytes_left fp =
     (if bytes_left = 0 then ([], 0, fp)
      else
        let to_read = min bytes_left (64 * 1024);
            (bytes, fp1) = fread to_read fp;
            (text, fails, fp2) = read_cipher env (bytes_left - to_read) fp1
        in (hex_bytes (bytes @ drop (length bytes) (local_array env ''bytes'' to_read)) @ text,
            (if length bytes \<noteq> to_read then 1 else 0) + fails, fp2))"
  by pat_completeness auto
termination
  by (relation "measure (\<lambda>(env, n, fp). n)") auto

declare read_cipher.simps [simp del]

text \<open>
  The admission of a candidate: \<^verbatim>\<open>bestsize\<close> and \<^verbatim>\<open>best\<close> are replaced, the
  latter by the text of the record up to the file names.
\<close>

definition admit_candidate ::
  "env \<Rightarrow> byte list \<Rightarrow> nat \<Rightarrow> nat \<Rightarrow> byte \<Rightarrow> byte list \<Rightarrow> r3_state \<Rightarrow> r3_state" where
  "admit_candidate env file_hdr_block file_hdr_pack_size file_hdr_unp_size method salt st =
     (let st1 = say_if (verbose env) Best_candidate_so_far st;
          head = base_aname env @ '':$RAR3$*'' @ show_int 1 @ ''*'' @ hex_bytes (take 8 salt);
          st2 = say_if (verbose env) Salt_shown st1;
          head2 = head @ ''*'' @ hex_bytes (take 4 (drop 16 file_hdr_block));
          st3 = say_if (verbose env) Method_shown (say_if (verbose env) Unp_ver_shown st2);
          head3 = head2 @ ''*'' @ show_nat file_hdr_pack_size @ ''*''
                    @ show_nat file_hdr_unp_size @ ''*'' @ ''1*'';
          (text, fails, fp1) = read_cipher env file_hdr_pack_size (src st3);
          tail = ''*'' @ hex_byte method @ '':'' @ show_int 1 @ ''::''
      in st3\<lparr>src := fp1,
              diags := diags st3 @ replicate fails Error_while_reading_archive,
              bestsize := \<lparr>pack = file_hdr_pack_size, unp = file_hdr_unp_size, meth = method\<rparr>,
              best := Some (head3 @ text @ tail),
              best_len := (length head3 + file_hdr_pack_size + length tail)
                            mod 2 ^ size_bits env\<rparr>)"

text \<open>
  From the solid test to the end of the loop body: the entry is skipped (its data
  stepped over) or admitted.  Both ways go back to \<^verbatim>\<open>next_file_header\<close>.
\<close>

definition skip_data :: "nat \<Rightarrow> r3_state \<Rightarrow> r3_state" where
  "skip_data file_hdr_pack_size st =
     st\<lparr>src := fseek (src st) (to_off64 file_hdr_pack_size) SEEK_CUR\<rparr>"

definition entry_select ::
  "env \<Rightarrow> byte list \<Rightarrow> nat \<Rightarrow> nat \<Rightarrow> byte list \<Rightarrow> r3_state \<Rightarrow> r3_state" where
  "entry_select env file_hdr_block file_hdr_pack_size file_hdr_unp_size salt st =
     (let file_hdr_head_flags = le16 file_hdr_block 3
      in if file_hdr_head_flags AND 0x10 \<noteq> 0
         then skip_data file_hdr_pack_size (say Solid_cannot_handle st)
         else if drop_bit 5 (file_hdr_head_flags AND 0xe0) = 7
         then skip_data file_hdr_pack_size (say_if (verbose env) Is_a_directory st)
         else
           let st1 = say_if (verbose env) Dictionary_size st
           in if file_hdr_head_flags AND 0x04 = 0
              then skip_data file_hdr_pack_size (say Not_encrypted st1)
              else
                let method = file_hdr_block ! 25
                in if better_candidate_already env (bestsize st1) file_hdr_pack_size
                        file_hdr_unp_size method
                   then skip_data file_hdr_pack_size
                          (say_if (verbose env) Better_candidate_already st1)
                   else admit_candidate env file_hdr_block file_hdr_pack_size
                          file_hdr_unp_size method salt st1)"

text \<open>The \<^verbatim>\<open>else\<close> branch of \<^verbatim>\<open>type == 0\<close>: one header of the \<^verbatim>\<open>-p\<close> mode.\<close>

definition mode1_entry :: "env \<Rightarrow> byte list \<Rightarrow> r3_state \<Rightarrow> label \<times> r3_state" where
  "mode1_entry env file_hdr_block st =
     (let file_hdr_head_flags = le16 file_hdr_block 3
      in if file_hdr_head_flags AND 0x8000 = 0 then (BailOut, say Flag_8000_unset st)
      else
      let file_hdr_head_size = le16 file_hdr_block 5;
          pack0 = le32 file_hdr_block 7 mod 2 ^ size_bits env;
          unp0 = le32 file_hdr_block 11 mod 2 ^ size_bits env;
          st1 = say_if (verbose env) Head_sizes st;
          ext0 = int (unat file_hdr_head_size) - 32;
          (sizes, st2) =
            (if file_hdr_head_flags AND 0x100 \<noteq> 0 then high_sizes env pack0 unp0 ext0 st1
             else (Some (pack0, unp0, ext0), st1))
      in case sizes of
           None \<Rightarrow> (err, st2)
         | Some (file_hdr_pack_size, file_hdr_unp_size, ext1) \<Rightarrow>
             (case entry_name env file_hdr_block st2 of
                (False, st3) \<Rightarrow> (err, st3)
              | (True, st3) \<Rightarrow>
                  (case entry_salt_and_time env file_hdr_head_flags
                          (ext1 - int (unat (le16 file_hdr_block 26))) st3 of
                     (None, st4) \<Rightarrow> (err, st4)
                   | (Some salt, st4) \<Rightarrow>
                       (next_file_header,
                        entry_select env file_hdr_block file_hdr_pack_size
                          file_hdr_unp_size salt st4))))"

text \<open>What follows the test of the type tag: the branch on \<^verbatim>\<open>type\<close>.\<close>

definition header_body :: "env \<Rightarrow> int \<Rightarrow> byte list \<Rightarrow> r3_state \<Rightarrow> label \<times> r3_state" where
  "header_body env type file_hdr_block st =
     (if type = 0 then mode0_record env st else mode1_entry env file_hdr_block st)"

text \<open>
  The code from the label \<^verbatim>\<open>next_file_header\<close> to the next jump.  \<open>type\<close> is 0 for an
  archive with encrypted headers and 1 otherwise.
\<close>

definition file_header :: "env \<Rightarrow> int \<Rightarrow> r3_state \<Rightarrow> label \<times> r3_state" where
  "file_header env type st =
     (let st0 = say_if (verbose env) Blank_line st;
          (count, file_hdr_block, fp1) = fread_item 32 (src st0);
          st1 = st0\<lparr>src := fp1\<rparr>
      in if eof fp1 then (BailOut, say_if (verbose env) End_of_file st1)
         else if count \<noteq> 1 then (err, say Read_failed st1)
         else if type = 1 \<and> file_hdr_block ! 2 = 0x7a
         then header_body env type file_hdr_block
                (say_if (verbose env) Comment_block_present st1)
         else if type = 1 \<and> file_hdr_block ! 2 \<noteq> 0x74
         then (BailOut, say Not_recognising_more_headers st1)
         else header_body env type file_hdr_block st1)"

text \<open>
  The loop formed by the jumps back to \<^verbatim>\<open>next_file_header\<close>.  A seek over the data
  of an entry converts the packed size to a signed offset, so it may go backwards and
  the loop has no bound; the model counts the headers it may still read.  The result
  is the label the loop was left to, or \<open>None\<close> when the count ran out first.
\<close>

fun file_headers :: "nat \<Rightarrow> env \<Rightarrow> int \<Rightarrow> r3_state \<Rightarrow> label option \<times> r3_state" where
  "file_headers 0 env type st = (None, st)"
| "file_headers (Suc n) env type st =
     (case file_header env type st of
        (next_file_header, st1) \<Rightarrow> file_headers n env type st1
      | (l, st1) \<Rightarrow> (Some l, st1))"

text \<open>The code at the label \<^verbatim>\<open>BailOut\<close>.\<close>

definition bail_out :: "env \<Rightarrow> r3_state \<Rightarrow> r3_state" where
  "bail_out env st =
     (case best st of
        Some b \<Rightarrow>
          if b \<noteq> [] then
            (let st1 = say_if (verbose env) Found_valid_candidate st;
                 st2 = say_if (unp (bestsize st1)
                                 < (if meth (bestsize st1) > 0x30 then 5 else 1))
                         Warning_candidate_too_small st1;
                 n = nat ((int (LINE_BUFFER_SIZE env) - int (best_len st2) - 1)
                            mod 2 ^ size_bits env)
             in print (b @ take n (gecos st2) @ newline) st2)
          else say Did_not_find_candidate st
      | None \<Rightarrow> say Did_not_find_candidate st)"

definition r3_of_world :: "env \<Rightarrow> world \<Rightarrow> stream \<Rightarrow> r3_state" where
  "r3_of_world env w fp =
     \<lparr>out = out w, diags = diags w, Encrypted = Encrypted w, PswCheck = PswCheck w,
      rar5_interations = rar5_interations w, UsePswCheck = UsePswCheck w,
      rar5_salt = rar5_salt w, src = fp, bestsize = initial_bestsize env, best = None,
      best_len = 0, gecos = [], gecos_len = 0\<rparr>"

text \<open>
  \<^verbatim>\<open>process_file\<close> from the archive header block on, the stream standing behind the
  RAR3 magic.
\<close>

definition process_rar3 :: "nat \<Rightarrow> env \<Rightarrow> r3_state \<Rightarrow> bool \<times> world" where
  "process_rar3 fuel env st =
     (let (cnt, archive_hdr_block, fp1) = fread_item 13 (src st);
          st1 = st\<lparr>src := fp1\<rparr>
      in if cnt \<noteq> 1 then (True, world_of (say Read_failed st1))
         else if archive_hdr_block ! 2 \<noteq> 0x73
         then (True, world_of (say Bad_archive_header_tag st1))
         else
           let archive_hdr_head_flags = le16 archive_hdr_block 3;
               type = (if archive_hdr_head_flags AND 0x0080 \<noteq> 0 then 0 else 1);
               head_size = le16 archive_hdr_block 5;
               st2 = (if 13 < unat head_size
                      then st1\<lparr>src := fseek fp1 (int (unat head_size) - 13) SEEK_CUR\<rparr>
                      else st1)
           in case file_headers fuel env type st2 of
                (None, st3) \<Rightarrow> (False, world_of st3)
              | (Some BailOut, st3) \<Rightarrow> (True, world_of (bail_out env st3))
              | (Some l, st3) \<Rightarrow> (True, world_of st3))"

text \<open>
  \<^verbatim>\<open>process_file\<close> on a file with the bytes \<open>bs\<close> (and device fault \<open>bad\<close>).  The
  result says whether the function returned within the count of headers, and gives
  the world it left.  The file is taken to exist, so \<^verbatim>\<open>fopen\<close> succeeds.
\<close>

definition process_file :: "nat \<Rightarrow> env \<Rightarrow> byte list \<Rightarrow> nat option \<Rightarrow> world \<Rightarrow> bool \<times> world" where
  "process_file fuel env bs bad w =
     (let (cnt, marker_block, fp1) = fread_item (length RAR3_MAGIC) (open_file bs bad)
      in if cnt \<noteq> 1 then (True, say Not_a_RAR_file w)
         else if take (length RAR_OLD_MAGIC) marker_block = RAR_OLD_MAGIC
         then (True, say Too_old_RAR_version w)
         else if marker_block \<noteq> RAR3_MAGIC then
           (if take 2 marker_block = MZ then
              (case sfx_scan env False fp1 of
                 (True, fp2) \<Rightarrow> process_rar3 fuel env (r3_of_world env w fp2)
               | (False, fp2) \<Rightarrow>
                   (case process_file5 fuel env bs bad w of
                      (None, w1) \<Rightarrow> (False, w1)
                    | (Some r, w1) \<Rightarrow> (True, w1)))
            else
              (case process_file5 fuel env bs bad w of
                 (None, w1) \<Rightarrow> (False, w1)
               | (Some r, w1) \<Rightarrow> (True, w1)))
         else process_rar3 fuel env (r3_of_world env w fp1))"


section \<open>Lines on the standard output\<close>

text \<open>
  A write is a complete line when it ends with the line terminator.  The standard
  output \<open>new\<close> continues \<open>old\<close> by complete lines when every write made since is one.
\<close>

definition complete_line :: "string \<Rightarrow> bool" where
  "complete_line s = (s \<noteq> [] \<and> last s = CHR 0x0A)"

definition lines_appended :: "string list \<Rightarrow> string list \<Rightarrow> bool" where
  "lines_appended old new =
     (take (length old) new = old \<and> list_all complete_line (drop (length old) new))"

section \<open>A sample environment\<close>

text \<open>
  An environment for running the model on concrete archives: a 64-bit build, quiet,
  with the constants of the RAR5 format for the flags the model takes from outside.
  The helpers from outside the file are fixed to simple functions; the theorems
  below hold for every environment and use this one for their instances only.
\<close>

definition sample_env :: env where
  "sample_env =
     \<lparr>verbose = False, size_bits = 64, LINE_BUFFER_SIZE = 1024,
      archive_name = ''dir/a.rar'', base_aname = ''a.rar'',
      DecodeFileName = (\<lambda>buf. []), utf16_to_utf8_r = (\<lambda>ws. []),
      b64_hex = hex_bytes, sha256 = (\<lambda>bs. replicate 32 0),
      CRYPT_VERSION = 0, CHFL_CRYPT_PSWCHECK = 1, MHFL_VOLNUMBER = 2,
      FHFL_UTIME = 2, FHFL_CRC32 = 4, indeterminate = (\<lambda>name i. 0xee)\<rparr>"

section \<open>Sample archives\<close>

text \<open>
  A RAR5 archive with one file block and an end-of-archive block.  The extra area of
  the file block (52 bytes) holds a record of type 3 with a one-byte payload, then the
  crypt record with the password-check flag, \<open>Lg2Count = 15\<close>, salt \<open>a0 .. af\<close>, IV
  \<open>b0 .. bf\<close> and password check \<open>c0 .. cb\<close>.
\<close>

definition rar5_leading_tlv_archive :: "byte list" where
  "rar5_leading_tlv_archive =
     [0x52, 0x61, 0x72, 0x21, 0x1a, 0x07, 0x01, 0x00,
      0, 0, 0, 0, 0x3e, 0x02, 0x01, 0x34, 0, 0, 0, 0, 0, 0x01, 0x61,
      0x02, 0x03, 0x7f,
      0x30, 0x01, 0x00, 0x01, 0x0f,
      0xa0, 0xa1, 0xa2, 0xa3, 0xa4, 0xa5, 0xa6, 0xa7, 0xa8, 0xa9, 0xaa, 0xab, 0xac, 0xad, 0xae, 0xaf,
      0xb0, 0xb1, 0xb2, 0xb3, 0xb4, 0xb5, 0xb6, 0xb7, 0xb8, 0xb9, 0xba, 0xbb, 0xbc, 0xbd, 0xbe, 0xbf,
      0xc0, 0xc1, 0xc2, 0xc3, 0xc4, 0xc5, 0xc6, 0xc7, 0xc8, 0xc9, 0xca, 0xcb,
      0, 0, 0, 0, 0x03, 0x05, 0x00, 0x00]"

text \<open>The same archive with the two records of the extra area in the other order.\<close>

definition rar5_crypt_first_archive :: "byte list" where
  "rar5_crypt_first_archive =
     [0x52, 0x61, 0x72, 0x21, 0x1a, 0x07, 0x01, 0x00,
      0, 0, 0, 0, 0x3e, 0x02, 0x01, 0x34, 0, 0, 0, 0, 0, 0x01, 0x61,
      0x30, 0x01, 0x00, 0x01, 0x0f,
      0xa0, 0xa1, 0xa2, 0xa3, 0xa4, 0xa5, 0xa6, 0xa7, 0xa8, 0xa9, 0xaa, 0xab, 0xac, 0xad, 0xae, 0xaf,
      0xb0, 0xb1, 0xb2, 0xb3, 0xb4, 0xb5, 0xb6, 0xb7, 0xb8, 0xb9, 0xba, 0xbb, 0xbc, 0xbd, 0xbe, 0xbf,
      0xc0, 0xc1, 0xc2, 0xc3, 0xc4, 0xc5, 0xc6, 0xc7, 0xc8, 0xc9, 0xca, 0xcb,
      0x02, 0x03, 0x7f,
      0, 0, 0, 0, 0x03, 0x05, 0x00, 0x00]"

text \<open>
  A RAR5 archive whose only block is a crypt header with the password-check flag
  clear (version 0, flags 0, \<open>lg_2count = 15\<close>, salt \<open>a0 .. af\<close>), followed by 16 bytes;
  and the parser state behind the magic of that archive.
\<close>

definition rar5_crypt_header_archive :: "byte list" where
  "rar5_crypt_header_archive =
     [0x52, 0x61, 0x72, 0x21, 0x1a, 0x07, 0x01, 0x00,
      0, 0, 0, 0, 0x15, 0x04, 0x00, 0x00, 0x00, 0x0f,
      0xa0, 0xa1, 0xa2, 0xa3, 0xa4, 0xa5, 0xa6, 0xa7, 0xa8, 0xa9, 0xaa, 0xab, 0xac, 0xad, 0xae, 0xaf,
      0xb0, 0xb1, 0xb2, 0xb3, 0xb4, 0xb5, 0xb6, 0xb7, 0xb8, 0xb9, 0xba, 0xbb, 0xbc, 0xbd, 0xbe, 0xbf]"

definition crypt_header_state :: r5_state where
  "crypt_header_state =
     r5_of_world initial_world
       \<lparr>content = rar5_crypt_header_archive, pos = 8, eof = False, bad_from = None\<rparr>"

text \<open>
  The same archive without the 16 bytes behind the crypt header: the file ends with the
  block.
\<close>

definition rar5_crypt_header_cut_archive :: "byte list" where
  "rar5_crypt_header_cut_archive =
     [0x52, 0x61, 0x72, 0x21, 0x1a, 0x07, 0x01, 0x00,
      0, 0, 0, 0, 0x15, 0x04, 0x00, 0x00, 0x00, 0x0f,
      0xa0, 0xa1, 0xa2, 0xa3, 0xa4, 0xa5, 0xa6, 0xa7, 0xa8, 0xa9, 0xaa, 0xab, 0xac, 0xad, 0xae, 0xaf]"

text \<open>
  A RAR5 archive whose only block is a crypt header with the password-check flag set
  (version 0, flags 1, \<open>lg_2count = 15\<close>, salt \<open>a0 .. af\<close>, password check \<open>c0 .. cb\<close>)
  and the checksum \<open>d0 .. d3\<close>, which is not the hash of the password check in the sample
  environment; 16 bytes \<open>b0 .. bf\<close> follow the block.  Then the parser state behind the
  magic of that archive.
\<close>

definition rar5_crypt_mismatch_archive :: "byte list" where
  "rar5_crypt_mismatch_archive =
     [0x52, 0x61, 0x72, 0x21, 0x1a, 0x07, 0x01, 0x00,
      0, 0, 0, 0, 0x25, 0x04, 0x00, 0x00, 0x01, 0x0f,
      0xa0, 0xa1, 0xa2, 0xa3, 0xa4, 0xa5, 0xa6, 0xa7, 0xa8, 0xa9, 0xaa, 0xab, 0xac, 0xad, 0xae, 0xaf,
      0xc0, 0xc1, 0xc2, 0xc3, 0xc4, 0xc5, 0xc6, 0xc7, 0xc8, 0xc9, 0xca, 0xcb,
      0xd0, 0xd1, 0xd2, 0xd3,
      0xb0, 0xb1, 0xb2, 0xb3, 0xb4, 0xb5, 0xb6, 0xb7, 0xb8, 0xb9, 0xba, 0xbb, 0xbc, 0xbd, 0xbe, 0xbf]"

definition crypt_mismatch_state :: r5_state where
  "crypt_mismatch_state =
     r5_of_world initial_world
       \<lparr>content = rar5_crypt_mismatch_archive, pos = 8, eof = False, bad_from = None\<rparr>"

text \<open>
  A stream that holds a version 0, the flags 1, the count byte 24 and 44 more bytes,
  as the fields of a crypt header and of a crypt record of an extra area both start.
\<close>

definition lg2_maximum_state :: r5_state where
  "lg2_maximum_state =
     r5_of_world initial_world
       \<lparr>content =
          [0x00, 0x01, 0x18,
           0xa0, 0xa1, 0xa2, 0xa3, 0xa4, 0xa5, 0xa6, 0xa7, 0xa8, 0xa9, 0xaa, 0xab, 0xac, 0xad, 0xae, 0xaf,
           0xb0, 0xb1, 0xb2, 0xb3, 0xb4, 0xb5, 0xb6, 0xb7, 0xb8, 0xb9, 0xba, 0xbb, 0xbc, 0xbd, 0xbe, 0xbf,
           0xc0, 0xc1, 0xc2, 0xc3, 0xc4, 0xc5, 0xc6, 0xc7, 0xc8, 0xc9, 0xca, 0xcb],
        pos = 0, eof = False, bad_from = None\<rparr>"

text \<open>The sample environment on a build with a 32-bit \<^verbatim>\<open>size_t\<close>, quiet and verbose.\<close>

definition sample_env32 :: env where
  "sample_env32 = sample_env\<lparr>size_bits := 32\<rparr>"

definition sample_env32_verbose :: env where
  "sample_env32_verbose = sample_env\<lparr>size_bits := 32, verbose := True\<rparr>"

text \<open>
  A RAR3 archive with one encrypted file entry \<open>a\<close> whose header has the flag \<open>0x100\<close>:
  low packed size 4, high packed size 1, unpacked size 20, stored, four bytes of data.
\<close>

definition rar3_high_size_archive :: "byte list" where
  "rar3_high_size_archive =
     [0x52, 0x61, 0x72, 0x21, 0x1a, 0x07, 0x00,
      0x00, 0x00, 0x73, 0x00, 0x00, 0x0d, 0x00, 0, 0, 0, 0, 0, 0,
      0x00, 0x00, 0x74, 0x04, 0x81, 0x29, 0x00, 0x04, 0x00, 0x00, 0x00,
      0x14, 0x00, 0x00, 0x00, 0x00, 0xde, 0xad, 0xbe, 0xef, 0, 0, 0, 0,
      0x1d, 0x30, 0x01, 0x00, 0, 0, 0, 0,
      0x01, 0x00, 0x00, 0x00, 0x00, 0x00, 0x00, 0x00,
      0x61,
      0x11, 0x22, 0x33, 0x44]"

text \<open>
  A RAR3 archive whose only header has the type tag \<open>0x7a\<close>, with the encryption flag,
  packed size 4, unpacked size 20, stored, the name \<open>a\<close> and four bytes of data.
\<close>

definition rar3_comment_tag_archive :: "byte list" where
  "rar3_comment_tag_archive =
     [0x52, 0x61, 0x72, 0x21, 0x1a, 0x07, 0x00,
      0x00, 0x00, 0x73, 0x00, 0x00, 0x0d, 0x00, 0, 0, 0, 0, 0, 0,
      0x00, 0x00, 0x7a, 0x04, 0x80, 0x21, 0x00, 0x04, 0x00, 0x00, 0x00,
      0x14, 0x00, 0x00, 0x00, 0x00, 0xde, 0xad, 0xbe, 0xef, 0, 0, 0, 0,
      0x1d, 0x30, 0x01, 0x00, 0, 0, 0, 0,
      0x61,
      0x11, 0x22, 0x33, 0x44]"




definition comment_tag_state :: r3_state where
  "comment_tag_state =
     r3_of_world sample_env initial_world
       \<lparr>content = rar3_comment_tag_archive, pos = 20, eof = False, bad_from = None\<rparr>"

section \<open>Facts about the stream\<close>

lemma fread_length: "length (fst (fread n fp)) = min n (readable fp - pos fp)"
  by (auto simp: fread_def Let_def readable_def split: option.splits)

lemma fread_pos: "pos (snd (fread n fp)) = pos fp + min n (readable fp - pos fp)"
  by (simp add: fread_def Let_def)

lemma fread_readable: "readable (snd (fread n fp)) = readable fp"
  by (simp add: fread_def Let_def readable_def split: option.splits)

section \<open>\<^verbatim>\<open>read_buf\<close> and short reads\<close>

text \<open>
  Claim C10.  For a requested length \<open>len \<ge> 1\<close> (that fits the size type),
  \<^verbatim>\<open>read_buf\<close> returns \<open>len\<close> and adds the whole \<open>len\<close> to the caller's counter as soon
  as the stream delivers one byte, however many of the \<open>len\<close> bytes were really read; it
  returns 0, and leaves the counter alone, only when no byte was read.
\<close>

theorem read_buf_short_read_is_success:
  assumes "1 \<le> len" and "len < 2 ^ sz"
  shows "(let got = length (fst (fread (nat len) fp));
              (ret, cp', bytes_read', fp') = read_buf sz fp cp len bytes_read
          in got = min (nat len) (readable fp - pos fp) \<and>
             (1 \<le> got \<longrightarrow> ret = len \<and> bytes_read' = bytes_read + word_of_int len) \<and>
             (got = 0 \<longrightarrow> ret = 0 \<and> bytes_read' = bytes_read) \<and>
             (ret = 0 \<longleftrightarrow> got = 0))"
proof -
  from assms have m: "len mod 2 ^ sz = len" by simp
  obtain bs fp' where f: "fread (nat len) fp = (bs, fp')" by (cases "fread (nat len) fp")
  have l: "length bs = min (nat len) (readable fp - pos fp)"
    using fread_length [of "nat len" fp] f by simp
  show ?thesis
  proof (cases "bs = []")
    case True
    then show ?thesis using f l m assms by (simp add: read_buf_def Let_def)
  next
    case False
    then have "1 \<le> length bs" by (cases bs) simp_all
    then show ?thesis using f l m assms False by (auto simp: read_buf_def Let_def)
  qed
qed

theorem read_buf_short_read_is_success_witness:
  "(1::int) \<le> 16 \<and> (16::int) < 2 ^ 64 \<and>
   length (fst (fread (nat 16) (open_file [1, 2, 3] None))) = 3 \<and>
   read_buf 64 (open_file [1, 2, 3] None) (replicate 16 0) 16 7
     = (16, [1, 2, 3] @ replicate 13 0, 23,
        \<lparr>content = [1, 2, 3], pos = 3, eof = True, bad_from = None\<rparr>)"
  using read_buf_short_read_is_success [of 16 64 "open_file [1, 2, 3] None" "replicate 16 0" 7]
  by (simp add: read_buf_def fread_def open_file_def readable_def Let_def)

section \<open>The candidate selector\<close>

text \<open>
  The decision of the selector as a function on \<^verbatim>\<open>bestsize\<close>: what \<^verbatim>\<open>bestsize\<close> is
  after an encrypted entry with the given sizes and method was offered.
\<close>

lemma admit_candidate_bestsize:
  "bestsize (admit_candidate env hb p u m salt st) = \<lparr>pack = p, unp = u, meth = m\<rparr>"
  by (simp add: admit_candidate_def Let_def split: prod.splits)

lemma skip_data_bestsize: "bestsize (skip_data p st) = bestsize st"
  by (simp add: skip_data_def)

lemma say_bestsize: "bestsize (say d st) = bestsize st"
  by (simp add: say_def)

lemma say_if_bestsize: "bestsize (say_if c d st) = bestsize st"
  by (simp add: say_if_def say_def)

lemma entry_select_bestsize:
  assumes "le16 hb 3 AND 0x10 = 0" "drop_bit 5 (le16 hb 3 AND 0xe0) \<noteq> 7"
    "le16 hb 3 AND 0x04 \<noteq> 0"
  shows "bestsize (entry_select env hb p u salt st) = select_step env (bestsize st) (p, u, hb ! 25)"
  using assms
  by (simp add: entry_select_def select_step_def Let_def admit_candidate_bestsize
      skip_data_bestsize say_if_bestsize say_bestsize)

text \<open>
  Claim C1, as the code has it.  When the new entry has the packed size of the incumbent
  (an incumbent there is: its packed size is below \<^verbatim>\<open>SIZE_MAX\<close>), the candidate with an
  unpacked size of at least 8 is preferred to one below 8.  When both are at least 8 the
  incumbent is kept only if its unpacked size is not the larger one, and when both are
  below 8 only if its unpacked size is the larger one: in the other cases the new entry
  is admitted.
\<close>

theorem tie_on_packed_size:
  assumes "pack b < SIZE_MAX env"
  shows "(8 \<le> unp b \<and> u < 8 \<longrightarrow> better_candidate_already env b (pack b) u m) \<and>
         (unp b < 8 \<and> 8 \<le> u \<longrightarrow> \<not> better_candidate_already env b (pack b) u m) \<and>
         (8 \<le> unp b \<and> 8 \<le> u \<longrightarrow>
            (better_candidate_already env b (pack b) u m \<longleftrightarrow> unp b \<le> u)) \<and>
         (unp b < 8 \<and> u < 8 \<longrightarrow>
            (better_candidate_already env b (pack b) u m \<longleftrightarrow> u < unp b))"
  using assms by (auto simp: better_candidate_already_def)

theorem tie_on_packed_size_witness:
  "pack \<lparr>pack = 1000, unp = 5, meth = 0x30\<rparr> < SIZE_MAX sample_env \<and>
   \<not> better_candidate_already sample_env \<lparr>pack = 1000, unp = 5, meth = 0x30\<rparr> 1000 20 0x30 \<and>
   better_candidate_already sample_env \<lparr>pack = 1000, unp = 20, meth = 0x30\<rparr> 1000 5 0x30"
  using tie_on_packed_size [of "\<lparr>pack = 1000, unp = 5, meth = 0x30\<rparr>" sample_env 20 "0x30"]
    tie_on_packed_size [of "\<lparr>pack = 1000, unp = 20, meth = 0x30\<rparr>" sample_env 5 "0x30"]
  by (simp add: SIZE_MAX_def sample_env_def)

text \<open>
  The claim as stated fails: with equal packed sizes and both unpacked sizes at least 8,
  the new entry replaces the incumbent when its unpacked size is smaller.
\<close>

theorem tie_keeps_incumbent_counterexample:
  "pack \<lparr>pack = 1000, unp = 20, meth = 0x30\<rparr> < SIZE_MAX sample_env \<and>
   8 \<le> unp \<lparr>pack = 1000, unp = 20, meth = 0x30\<rparr> \<and> (8::nat) \<le> 10 \<and>
   \<not> better_candidate_already sample_env \<lparr>pack = 1000, unp = 20, meth = 0x30\<rparr> 1000 10 0x30 \<and>
   select_step sample_env \<lparr>pack = 1000, unp = 20, meth = 0x30\<rparr> (1000, 10, 0x30)
     = \<lparr>pack = 1000, unp = 10, meth = 0x30\<rparr>"
  by (simp add: better_candidate_already_def select_step_def SIZE_MAX_def sample_env_def)

text \<open>
  Claim C7, as the code has it.  When the incumbent has an unpacked size of at least 8
  (and a packed size below \<^verbatim>\<open>SIZE_MAX\<close>), the entry admitted in its place has an unpacked
  size of at least 8, or a strictly smaller packed size and an unpacked size that meets
  the threshold of its own method.  The guarantee is about the next admission only.
\<close>

theorem selector_next_admission:
  assumes "8 \<le> unp b" and "pack b < SIZE_MAX env"
    and "\<not> better_candidate_already env b p u m"
  shows "8 \<le> u \<or> (p < pack b \<and> (if m > 0x30 then 4 else 1) \<le> u)"
  using assms by (auto simp: better_candidate_already_def split: if_splits)

theorem selector_next_admission_witness:
  "8 \<le> unp \<lparr>pack = 3000, unp = 20, meth = 0x30\<rparr> \<and>
   pack \<lparr>pack = 3000, unp = 20, meth = 0x30\<rparr> < SIZE_MAX sample_env \<and>
   \<not> better_candidate_already sample_env \<lparr>pack = 3000, unp = 20, meth = 0x30\<rparr> 2000 2 0x30 \<and>
   ((8::nat) \<le> 2 \<or> ((2000::nat) < 3000 \<and> (if (0x30::byte) > 0x30 then 4 else 1) \<le> (2::nat)))"
  using selector_next_admission [of "\<lparr>pack = 3000, unp = 20, meth = 0x30\<rparr>" sample_env 2000 2 "0x30"]
  by (simp add: better_candidate_already_def SIZE_MAX_def sample_env_def)

text \<open>
  The claim as stated fails for a later admission: after the entry of unpacked size 20,
  an entry of unpacked size 2 (stored) is admitted for its smaller packed size, and then a
  compressed entry of unpacked size 3, below the threshold 4 of its method.
\<close>

theorem selector_monotonicity_counterexample:
  "select_step sample_env (initial_bestsize sample_env) (3000, 20, 0x30)
     = \<lparr>pack = 3000, unp = 20, meth = 0x30\<rparr> \<and>
   select_step sample_env \<lparr>pack = 3000, unp = 20, meth = 0x30\<rparr> (2000, 2, 0x30)
     = \<lparr>pack = 2000, unp = 2, meth = 0x30\<rparr> \<and>
   select_step sample_env \<lparr>pack = 2000, unp = 2, meth = 0x30\<rparr> (1000, 3, 0x33)
     = \<lparr>pack = 1000, unp = 3, meth = 0x33\<rparr> \<and>
   \<not> ((8::nat) \<le> 3 \<or> ((1000::nat) < 3000 \<and> (if (0x33::byte) > 0x30 then 4 else 1) \<le> (3::nat)))"
  by (simp add: better_candidate_already_def select_step_def SIZE_MAX_def sample_env_def
      initial_bestsize_def)


section \<open>Running the RAR5 parser\<close>

lemma replicate_numeral_unfold: "replicate (numeral k) x = x # replicate (pred_numeral k) x"
  by (simp add: numeral_eq_Suc)

lemmas run5 = process_file5_def rar5_blocks.simps read_rar5_header_def read_header_fields_def
  file_block_def main_block_def crypt_block_def ProcessExtra50_def ProcessExtra50_loop.simps
  extra_crypt_record_def read_vuint_def read_vuint_loop.simps read_uint32_def read_uint8_def
  read_buf_def fread_def fread_item_def fseek_def open_file_def readable_def to_off64_def
  r5_of_world_def world_of_def say_def say_if_def print_def rar5_record_def local_array_def
  RAR5_MAGIC_def MZ_def HEAD_MAIN_def HEAD_FILE_def HEAD_SERVICE_def HEAD_CRYPT_def
  HEAD_ENDARC_def HFL_EXTRA_def HFL_DATA_def FHEXTRA_CRYPT_def FHEXTRA_CRYPT_PSWCHECK_def
  CRYPT5_KDF_LG2_COUNT_MAX_def SIZE_SALT50_def SIZE_INITV_def SIZE_PSWCHECK_def
  SIZE_PSWCHECK_CSUM_def Let_def sample_env_def initial_world_def
  hex_bytes_def hex_byte_def itoa16_def show_nat.simps show_int_def newline_def

section \<open>The RAR5 crypt header and the iteration count\<close>

lemma sint_ucast_byte: "sint (ucast (w::8 word) :: 32 word) = uint w"
proof -
  have u: "uint (ucast w :: 32 word) = uint w"
    by (rule uint_up_ucast) (simp add: is_up)
  have "uint w < 2 ^ 8" using uint_bounded [of w] by simp
  then have b: "uint w < 2 ^ 31" by simp
  have "- (2 ^ 31) \<le> (0::int)" by simp
  also have "0 \<le> uint w" by simp
  finally have "- (2 ^ 31) \<le> uint w" .
  then have "signed_take_bit 31 (uint w) = uint w" using b
    by (rule signed_take_bit_int_eq_self)
  then show ?thesis by (simp add: sint_uint u)
qed

lemma read_buf_exact:
  assumes "1 \<le> n" and "int n < 2 ^ sz" and "pos fp + n \<le> readable fp"
  shows "read_buf sz fp cp (int n) br =
           (int n, take n (drop (pos fp) (content fp)) @ drop n cp, br + of_nat n,
            fp\<lparr>pos := pos fp + n\<rparr>)"
proof -
  from assms have m: "int n mod 2 ^ sz = int n" by simp
  have r: "readable fp \<le> length (content fp)"
    by (simp add: readable_def split: option.splits)
  have k: "min n (readable fp - pos fp) = n" using assms by simp
  have l: "min (length (content fp) - pos fp) n = n" using assms r by simp
  have ne: "\<not> length (content fp) \<le> pos fp" using assms r by simp
  show ?thesis using assms ne
    by (simp add: read_buf_def fread_def Let_def m k l)
qed

lemma rar5_record_cong:
  "take 16 s = take 16 s' \<Longrightarrow> take 12 p = take 12 p' \<Longrightarrow>
   rar5_record env s l iv p = rar5_record env s' l iv p'"
  by (simp add: rar5_record_def SIZE_SALT50_def SIZE_PSWCHECK_def)

lemma read_rar5_header_Encrypted:
  assumes "Encrypted st" and "16 < (2::int) ^ size_bits env"
  shows "read_rar5_header env c st =
           (if fst (fread 16 (arc st)) = []
            then (0, None, say Too_short_for_IV (st\<lparr>arc := snd (fread 16 (arc st))\<rparr>))
            else (0, None,
                  print (rar5_record env (rar5_salt st) (sint (rar5_interations st))
                           (fst (fread 16 (arc st))
                              @ drop (length (fst (fread 16 (arc st))))
                                  (local_array env ''HeadersInitV'' 16))
                           (PswCheck st))
                    (st\<lparr>arc := snd (fread 16 (arc st)), found := found st + 1\<rparr>)))"
proof -
  obtain bs fq where f: "fread 16 (arc st) = (bs, fq)" by (cases "fread 16 (arc st)")
  have m: "(16::int) mod 2 ^ size_bits env = 16" using assms(2) by simp
  have l: "(length bs < 1) = (bs = [])" by (cases bs) simp_all
  show ?thesis using assms(1) f m l
    by (simp add: read_rar5_header_def read_buf_def SIZE_INITV_def Let_def)
qed

lemma crypt_block_parsed:
  assumes v: "read_vuint (arc st) br = (r1, crypt_version, br1, fp1)" "r1 \<noteq> 0"
      "crypt_version \<le> CRYPT_VERSION env"
    and f: "read_vuint fp1 br1 = (r2, enc_flags, br2, fp2)" "r2 \<noteq> 0"
    and l: "read_uint8 fp2 0 br2 = (r3, lg_2count, br3, fp3)" "r3 \<noteq> 0"
      "lg_2count \<le> CRYPT5_KDF_LG2_COUNT_MAX"
    and room: "pos fp3 + (if enc_flags AND CHFL_CRYPT_PSWCHECK env \<noteq> 0 then 32 else 16)
                 \<le> readable fp3"
    and sz: "16 < (2::int) ^ size_bits env"
  shows "crypt_block env br st =
           (True,
            if enc_flags AND CHFL_CRYPT_PSWCHECK env \<noteq> 0
            then st\<lparr>arc := fp3\<lparr>pos := pos fp3 + 32\<rparr>,
                    UsePswCheck :=
                      (take 4 (sha256 env (take 12 (drop (pos fp3 + 16) (content fp3))))
                         = take 4 (drop (pos fp3 + 28) (content fp3))),
                    rar5_interations := ucast lg_2count,
                    rar5_salt := take 16 (drop (pos fp3) (content fp3)) @ drop 16 (rar5_salt st),
                    PswCheck := take 12 (drop (pos fp3 + 16) (content fp3))
                                  @ drop 12 (PswCheck st),
                    Encrypted := True\<rparr>
            else st\<lparr>arc := fp3\<lparr>pos := pos fp3 + 16\<rparr>, UsePswCheck := False,
                    rar5_interations := ucast lg_2count,
                    rar5_salt := take 16 (drop (pos fp3) (content fp3)) @ drop 16 (rar5_salt st),
                    Encrypted := True\<rparr>)"
proof -
  from v l have nv: "\<not> CRYPT_VERSION env < crypt_version"
    and nl: "\<not> CRYPT5_KDF_LG2_COUNT_MAX < lg_2count" by auto
  have s: "int 16 < 2 ^ size_bits env" "int 12 < 2 ^ size_bits env" "int 4 < 2 ^ size_bits env"
    using sz by simp_all
  have r16: "pos fp3 + 16 \<le> readable fp3" using room by (simp split: if_splits)
  note b1 = read_buf_exact [where sz = "size_bits env" and fp = fp3 and n = 16
      and cp = "rar5_salt st" and br = br3, OF _ s(1) r16, simplified]
  show ?thesis
  proof (cases "enc_flags AND CHFL_CRYPT_PSWCHECK env \<noteq> 0")
    case False
    then show ?thesis using v f l nv nl b1
      by (simp add: crypt_block_def Let_def SIZE_SALT50_def)
  next
    case True
    with room have r32: "pos fp3 + 32 \<le> readable fp3" by simp
    have rd: "readable (fp3\<lparr>pos := p\<rparr>) = readable fp3" for p
      by (simp add: readable_def split: option.splits)
    have len: "pos fp3 + 32 \<le> length (content fp3)"
      using r32 by (simp add: readable_def split: option.splits)
    have b2: "read_buf (size_bits env) (fp3\<lparr>pos := pos fp3 + 16\<rparr>) (PswCheck st) 12 (br3 + 16)
        = (12, take 12 (drop (pos fp3 + 16) (content fp3)) @ drop 12 (PswCheck st),
           br3 + 16 + 12, fp3\<lparr>pos := pos fp3 + 28\<rparr>)"
      using read_buf_exact [where sz = "size_bits env" and fp = "fp3\<lparr>pos := pos fp3 + 16\<rparr>"
          and n = 12 and cp = "PswCheck st" and br = "br3 + 16", OF _ s(2)] r32
      by (simp add: rd)
    have b3: "read_buf (size_bits env) (fp3\<lparr>pos := pos fp3 + 28\<rparr>)
                (local_array env ''chksum'' 4) 4 (br3 + 16 + 12)
        = (4, take 4 (drop (pos fp3 + 28) (content fp3)) @ drop 4 (local_array env ''chksum'' 4),
           br3 + 16 + 12 + 4, fp3\<lparr>pos := pos fp3 + 32\<rparr>)"
      using read_buf_exact [where sz = "size_bits env" and fp = "fp3\<lparr>pos := pos fp3 + 28\<rparr>"
          and n = 4 and cp = "local_array env ''chksum'' 4" and br = "br3 + 16 + 12", OF _ s(3)]
        r32
      by (simp add: rd)
    have m12: "min (length (content fp3) - (pos fp3 + 16)) 12 = 12"
      and m4: "min (length (content fp3) - (pos fp3 + 28)) 4 = 4"
      using len by simp_all
    show ?thesis using True v f l nv nl b1 b2 b3
      by (simp add: crypt_block_def Let_def SIZE_SALT50_def SIZE_PSWCHECK_def
          SIZE_PSWCHECK_CSUM_def m12 m4)
  qed
qed

text \<open>
  Claim C8, as the code has it.  Take a state in which the encrypted-headers state is not
  yet set and a stream that holds a crypt header block: the common fields with the type
  \<^verbatim>\<open>HEAD_CRYPT\<close>, a version that is supported, the flags, a count byte of at most 24, the
  16 bytes of salt and, if the flags have the password-check bit, the 12 bytes of the
  password check and the 4 bytes of its checksum.  Nothing is assumed on the
  password-check bit or on the checksum.  Then the loop over the blocks ends within two
  header reads, and at its end the encrypted-headers state is set, with the salt and the
  count of the block; the password-check buffer holds the bytes of the block if the bit is
  set and is left as it was otherwise; \<^verbatim>\<open>UsePswCheck\<close> says whether the bit was set and the
  checksum matched.  What is printed depends on the position of the next block, which is
  computed from the sizes in the header:

    \<^item> if it is 0, the loop ends there, and nothing is printed;

    \<^item> otherwise the next header read takes up to 16 bytes at that position as the IV.
      If not one byte is delivered (the archive ends with the crypt header), nothing is
      printed and the archive is reported as too short.  If at least one byte is
      delivered, one RAR5 record is printed, with the salt and the count of the block, the
      bytes delivered (followed, if they are fewer than 16, by what the local array held)
      and the password-check buffer as it stands.

  In each case the loop is left, which ends the processing of the archive.
\<close>

theorem crypt_header_latches_encrypted_state:
  assumes ne: "\<not> Encrypted st"
    and hdr: "read_header_fields (arc st)
                = (Some (HeadSize, HEAD_CRYPT, extra_size, data_size), br, fp0)"
    and v: "read_vuint fp0 br = (r1, crypt_version, br1, fp1)" "r1 \<noteq> 0"
      "crypt_version \<le> CRYPT_VERSION env"
    and f: "read_vuint fp1 br1 = (r2, enc_flags, br2, fp2)" "r2 \<noteq> 0"
    and l: "read_uint8 fp2 0 br2 = (r3, lg_2count, br3, fp3)" "r3 \<noteq> 0"
      "lg_2count \<le> CRYPT5_KDF_LG2_COUNT_MAX"
    and room: "pos fp3 + (if enc_flags AND CHFL_CRYPT_PSWCHECK env \<noteq> 0 then 32 else 16)
                 \<le> readable fp3"
    and sz: "16 < (2::int) ^ size_bits env"
  shows
    "(let use = (enc_flags AND CHFL_CRYPT_PSWCHECK env \<noteq> 0);
          salt = take 16 (drop (pos fp3) (content fp3));
          psw = (if use then take 12 (drop (pos fp3 + 16) (content fp3)) else PswCheck st);
          chksum = take 4 (drop (pos fp3 + 28) (content fp3));
          NextBlockPos = (pos (arc st) mod 2 ^ size_bits env + unat HeadSize + unat data_size)
                           mod 2 ^ 64 mod 2 ^ size_bits env;
          iv = fst (fread 16 (fseek (fp3\<lparr>pos := pos fp3 + (if use then 32 else 16)\<rparr>)
                                (to_off64 NextBlockPos) SEEK_SET));
          st' = snd (rar5_blocks (Suc (Suc n)) env st)
      in fst (rar5_blocks (Suc (Suc n)) env st) \<and>
         Encrypted st' \<and>
         UsePswCheck st' = (use \<and> take 4 (sha256 env psw) = chksum) \<and>
         rar5_interations st' = ucast lg_2count \<and>
         take 16 (rar5_salt st') = salt \<and>
         take 12 (PswCheck st') = take 12 psw \<and>
         (if NextBlockPos = 0
          then out st' = out st \<and> diags st' = diags st \<and> found st' = found st
          else if iv = []
          then out st' = out st \<and> diags st' = diags st @ [Too_short_for_IV] \<and>
               found st' = found st
          else out st' = out st @ [rar5_record env salt (uint lg_2count)
                                     (iv @ drop (length iv) (local_array env ''HeadersInitV'' 16))
                                     psw] \<and>
               diags st' = diags st \<and> found st' = found st + 1))"
proof -
  define use where "use = (enc_flags AND CHFL_CRYPT_PSWCHECK env \<noteq> 0)"
  define salt where "salt = take 16 (drop (pos fp3) (content fp3))"
  define pc where "pc = take 12 (drop (pos fp3 + 16) (content fp3))"
  define psw where "psw = (if use then pc else PswCheck st)"
  define chksum where "chksum = take 4 (drop (pos fp3 + 28) (content fp3))"
  define nxt where "nxt = (pos (arc st) mod 2 ^ size_bits env + unat HeadSize + unat data_size)
                           mod 2 ^ 64 mod 2 ^ size_bits env"
  define fpE where "fpE = fp3\<lparr>pos := pos fp3 + (if use then 32 else 16)\<rparr>"
  define st1 where "st1 =
     (if use
      then st\<lparr>arc := fpE, UsePswCheck := (take 4 (sha256 env pc) = chksum),
              rar5_interations := ucast lg_2count,
              rar5_salt := salt @ drop 16 (rar5_salt st),
              PswCheck := pc @ drop 12 (PswCheck st), Encrypted := True\<rparr>
      else st\<lparr>arc := fpE, UsePswCheck := False, rar5_interations := ucast lg_2count,
              rar5_salt := salt @ drop 16 (rar5_salt st), Encrypted := True\<rparr>)"
  define fpi where "fpi = fseek fpE (to_off64 nxt) SEEK_SET"
  define iv where "iv = fst (fread 16 fpi)"
  define rec where "rec = rar5_record env salt (uint lg_2count)
                            (iv @ drop (length iv) (local_array env ''HeadersInitV'' 16)) psw"
  have len: "pos fp3 + (if use then 32 else 16) \<le> length (content fp3)"
    using room by (simp add: use_def readable_def split: option.splits if_splits)
  have ls: "length salt = 16" using len by (simp add: salt_def split: if_splits)
  have lp: "use \<Longrightarrow> length pc = 12" using len by (simp add: pc_def)
  have cb: "crypt_block env br (st\<lparr>arc := fp0\<rparr>) = (True, st1)"
    using crypt_block_parsed [of "st\<lparr>arc := fp0\<rparr>" br r1 crypt_version br1 fp1 env r2
        enc_flags br2 fp2 r3 lg_2count br3 fp3] v f l room sz
    by (simp add: st1_def use_def salt_def pc_def chksum_def fpE_def)
  have h1: "read_rar5_header env (pos (arc st) mod 2 ^ size_bits env) st
              = (nxt, Some HEAD_CRYPT, st1)"
    using ne hdr cb by (simp add: read_rar5_header_def Let_def nxt_def)
  have s1: "Encrypted st1" "UsePswCheck st1 = (use \<and> take 4 (sha256 env psw) = chksum)"
    "rar5_interations st1 = ucast lg_2count" "take 16 (rar5_salt st1) = salt"
    "take 12 (PswCheck st1) = take 12 psw" "out st1 = out st" "diags st1 = diags st"
    "found st1 = found st" "arc st1 = fpE"
    using ls lp by (simp_all add: st1_def psw_def)
  have fin: "fst (rar5_blocks (Suc (Suc n)) env st) \<and>
         Encrypted (snd (rar5_blocks (Suc (Suc n)) env st)) \<and>
         UsePswCheck (snd (rar5_blocks (Suc (Suc n)) env st))
           = (use \<and> take 4 (sha256 env psw) = chksum) \<and>
         rar5_interations (snd (rar5_blocks (Suc (Suc n)) env st)) = ucast lg_2count \<and>
         take 16 (rar5_salt (snd (rar5_blocks (Suc (Suc n)) env st))) = salt \<and>
         take 12 (PswCheck (snd (rar5_blocks (Suc (Suc n)) env st))) = take 12 psw \<and>
         (if nxt = 0
          then out (snd (rar5_blocks (Suc (Suc n)) env st)) = out st \<and>
               diags (snd (rar5_blocks (Suc (Suc n)) env st)) = diags st \<and>
               found (snd (rar5_blocks (Suc (Suc n)) env st)) = found st
          else if iv = []
          then out (snd (rar5_blocks (Suc (Suc n)) env st)) = out st \<and>
               diags (snd (rar5_blocks (Suc (Suc n)) env st)) = diags st @ [Too_short_for_IV] \<and>
               found (snd (rar5_blocks (Suc (Suc n)) env st)) = found st
          else out (snd (rar5_blocks (Suc (Suc n)) env st)) = out st @ [rec] \<and>
               diags (snd (rar5_blocks (Suc (Suc n)) env st)) = diags st \<and>
               found (snd (rar5_blocks (Suc (Suc n)) env st)) = found st + 1)"
  proof (cases "nxt = 0")
    case True
    have "rar5_blocks (Suc (Suc n)) env st = (True, st1)"
      using h1 True by (simp del: rar5_blocks.simps(2) add: rar5_blocks.simps(2) [of "Suc n"])
    then show ?thesis using True s1 by simp
  next
    case False
    define st2 where "st2 = st1\<lparr>arc := fpi\<rparr>"
    have e2: "Encrypted st2" using s1 by (simp add: st2_def)
    have a2: "arc st2 = fpi" by (simp add: st2_def)
    have r1: "rar5_blocks (Suc (Suc n)) env st = rar5_blocks (Suc n) env st2"
      using h1 False s1(9)
      by (simp del: rar5_blocks.simps(2) add: rar5_blocks.simps(2) [of "Suc n"] st2_def fpi_def)
    note h2 = read_rar5_header_Encrypted [OF e2 sz, of "pos (arc st2) mod 2 ^ size_bits env",
        unfolded a2, folded iv_def]
    have rc: "rar5_record env (rar5_salt st2) (sint (rar5_interations st2))
                (iv @ drop (length iv) (local_array env ''HeadersInitV'' 16)) (PswCheck st2) = rec"
    proof -
      have c: "sint (rar5_interations st2) = uint lg_2count"
        using s1 by (simp add: st2_def sint_ucast_byte)
      have a: "take 16 (rar5_salt st2) = take 16 salt" using s1 ls by (simp add: st2_def)
      have b: "take 12 (PswCheck st2) = take 12 psw" using s1 by (simp add: st2_def)
      show ?thesis unfolding rec_def c by (rule rar5_record_cong [OF a b])
    qed
    show ?thesis
    proof (cases "iv = []")
      case True
      have "rar5_blocks (Suc n) env st2
              = (True, say Too_short_for_IV (st2\<lparr>arc := snd (fread 16 fpi)\<rparr>))"
        using h2 True by (simp add: a2)
      then show ?thesis using r1 True False s1
        by (simp add: st2_def say_def)
    next
      case niv: False
      have "rar5_blocks (Suc n) env st2
              = (True, print rec (st2\<lparr>arc := snd (fread 16 fpi), found := found st2 + 1\<rparr>))"
        using h2 niv rc by (simp add: a2)
      then show ?thesis using r1 niv False s1
        by (simp add: st2_def print_def)
    qed
  qed
  then show ?thesis
    unfolding Let_def rec_def iv_def fpi_def fpE_def nxt_def chksum_def psw_def pc_def salt_def
      use_def .
qed

text \<open>
  The crypt header of \<open>rar5_crypt_mismatch_archive\<close> has the password-check bit and a
  checksum that does not match: \<^verbatim>\<open>UsePswCheck\<close> ends up clear, the state is set all the
  same, and the record is printed with the password check \<open>c0 .. cb\<close> of the block.
\<close>

theorem crypt_header_latches_encrypted_state_witness:
  "\<not> Encrypted crypt_mismatch_state \<and>
   read_header_fields (arc crypt_mismatch_state)
     = (Some (42, HEAD_CRYPT, 0, 0), 7, (arc crypt_mismatch_state)\<lparr>pos := 15\<rparr>) \<and>
   read_vuint ((arc crypt_mismatch_state)\<lparr>pos := 15\<rparr>) 7
     = (1, 0, 8, (arc crypt_mismatch_state)\<lparr>pos := 16\<rparr>) \<and>
   read_vuint ((arc crypt_mismatch_state)\<lparr>pos := 16\<rparr>) 8
     = (1, 1, 9, (arc crypt_mismatch_state)\<lparr>pos := 17\<rparr>) \<and>
   read_uint8 ((arc crypt_mismatch_state)\<lparr>pos := 17\<rparr>) 0 9
     = (1, 15, 10, (arc crypt_mismatch_state)\<lparr>pos := 18\<rparr>) \<and>
   1 AND CHFL_CRYPT_PSWCHECK sample_env \<noteq> 0 \<and>
   take 4 (sha256 sample_env [0xc0, 0xc1, 0xc2, 0xc3, 0xc4, 0xc5, 0xc6, 0xc7, 0xc8, 0xc9, 0xca, 0xcb])
     \<noteq> [0xd0, 0xd1, 0xd2, 0xd3] \<and>
   fst (rar5_blocks (Suc (Suc 0)) sample_env crypt_mismatch_state) \<and>
   Encrypted (snd (rar5_blocks (Suc (Suc 0)) sample_env crypt_mismatch_state)) \<and>
   \<not> UsePswCheck (snd (rar5_blocks (Suc (Suc 0)) sample_env crypt_mismatch_state)) \<and>
   found (snd (rar5_blocks (Suc (Suc 0)) sample_env crypt_mismatch_state)) = 1 \<and>
   out (snd (rar5_blocks (Suc (Suc 0)) sample_env crypt_mismatch_state))
     = [''a.rar:$rar5$16$a0a1a2a3a4a5a6a7a8a9aaabacadaeaf$15$b0b1b2b3b4b5b6b7b8b9babbbcbdbebf$12$c0c1c2c3c4c5c6c7c8c9cacb'' @ newline]"
proof -
  have ne: "\<not> Encrypted crypt_mismatch_state"
    by (simp add: crypt_mismatch_state_def r5_of_world_def initial_world_def)
  have hdr: "read_header_fields (arc crypt_mismatch_state)
     = (Some (42, HEAD_CRYPT, 0, 0), 7, (arc crypt_mismatch_state)\<lparr>pos := 15\<rparr>)"
    by (simp add: run5 crypt_mismatch_state_def rar5_crypt_mismatch_archive_def)
  have v: "read_vuint ((arc crypt_mismatch_state)\<lparr>pos := 15\<rparr>) 7
     = (1, 0, 8, (arc crypt_mismatch_state)\<lparr>pos := 16\<rparr>)"
    by (simp add: run5 crypt_mismatch_state_def rar5_crypt_mismatch_archive_def)
  have f: "read_vuint ((arc crypt_mismatch_state)\<lparr>pos := 16\<rparr>) 8
     = (1, 1, 9, (arc crypt_mismatch_state)\<lparr>pos := 17\<rparr>)"
    by (simp add: run5 crypt_mismatch_state_def rar5_crypt_mismatch_archive_def)
  have l: "read_uint8 ((arc crypt_mismatch_state)\<lparr>pos := 17\<rparr>) 0 9
     = (1, 15, 10, (arc crypt_mismatch_state)\<lparr>pos := 18\<rparr>)"
    by (simp add: run5 crypt_mismatch_state_def rar5_crypt_mismatch_archive_def)
  have one: "(1::int) \<noteq> 0" by simp
  have ver: "(0::64 word) \<le> CRYPT_VERSION sample_env" by simp
  have lg: "(15::byte) \<le> CRYPT5_KDF_LG2_COUNT_MAX" by (simp add: CRYPT5_KDF_LG2_COUNT_MAX_def)
  have fl: "(1::64 word) AND CHFL_CRYPT_PSWCHECK sample_env \<noteq> 0" by (simp add: sample_env_def)
  have room: "pos ((arc crypt_mismatch_state)\<lparr>pos := 18\<rparr>)
                + (if (1::64 word) AND CHFL_CRYPT_PSWCHECK sample_env \<noteq> 0 then 32 else 16)
                \<le> readable ((arc crypt_mismatch_state)\<lparr>pos := 18\<rparr>)"
    by (simp add: sample_env_def crypt_mismatch_state_def r5_of_world_def readable_def
        rar5_crypt_mismatch_archive_def)
  have sz: "16 < (2::int) ^ size_bits sample_env" by (simp add: sample_env_def)
  have sha: "take 4 (sha256 sample_env
                       [0xc0, 0xc1, 0xc2, 0xc3, 0xc4, 0xc5, 0xc6, 0xc7, 0xc8, 0xc9, 0xca, 0xcb])
               \<noteq> [0xd0, 0xd1, 0xd2, 0xd3]"
    by (simp add: sample_env_def replicate_numeral_unfold)
  note t = crypt_header_latches_encrypted_state
             [OF ne hdr v one ver f one l one lg room sz, of 0]
  have c: "fst (rar5_blocks (Suc (Suc 0)) sample_env crypt_mismatch_state) \<and>
   Encrypted (snd (rar5_blocks (Suc (Suc 0)) sample_env crypt_mismatch_state)) \<and>
   \<not> UsePswCheck (snd (rar5_blocks (Suc (Suc 0)) sample_env crypt_mismatch_state)) \<and>
   found (snd (rar5_blocks (Suc (Suc 0)) sample_env crypt_mismatch_state)) = 1 \<and>
   out (snd (rar5_blocks (Suc (Suc 0)) sample_env crypt_mismatch_state))
     = [''a.rar:$rar5$16$a0a1a2a3a4a5a6a7a8a9aaabacadaeaf$15$b0b1b2b3b4b5b6b7b8b9babbbcbdbebf$12$c0c1c2c3c4c5c6c7c8c9cacb'' @ newline]"
    using t
    by (simp add: crypt_mismatch_state_def rar5_crypt_mismatch_archive_def r5_of_world_def
        initial_world_def sample_env_def fread_def fseek_def to_off64_def readable_def
        rar5_record_def local_array_def hex_bytes_def hex_byte_def itoa16_def show_nat.simps
        show_int_def newline_def SIZE_SALT50_def SIZE_INITV_def SIZE_PSWCHECK_def Let_def
        replicate_numeral_unfold
        del: rar5_blocks.simps)
  show ?thesis using ne hdr v f l fl sha c by simp
qed

text \<open>
  The claim as stated fails: \<open>rar5_crypt_header_cut_archive\<close> ends with a crypt header
  that has a supported version and count.  The state is set, but the next header read
  gets no byte for the IV: no record is printed, and the archive is reported as too short
  and as holding no candidate.
\<close>

theorem crypt_header_at_end_counterexample:
  "process_file5 (Suc (Suc 0)) sample_env rar5_crypt_header_cut_archive None initial_world
     = (Some 1,
        initial_world
          \<lparr>diags := [Too_short_for_IV, Did_not_find_candidate], Encrypted := True,
           rar5_interations := 15,
           rar5_salt := [0xa0, 0xa1, 0xa2, 0xa3, 0xa4, 0xa5, 0xa6, 0xa7,
                         0xa8, 0xa9, 0xaa, 0xab, 0xac, 0xad, 0xae, 0xaf]\<rparr>) \<and>
   Encrypted (snd (process_file5 (Suc (Suc 0)) sample_env rar5_crypt_header_cut_archive None
                     initial_world)) \<and>
   out (snd (process_file5 (Suc (Suc 0)) sample_env rar5_crypt_header_cut_archive None
               initial_world)) = []"
  by (simp add: run5 rar5_crypt_header_cut_archive_def cong: prod.case_cong_weak option.case_cong_weak bool.case_cong_weak)

text \<open>
  With the password-check bit clear and no password check read before, the record carries
  twelve zero bytes.
\<close>

lemma crypt_header_without_pswcheck_prints_zeros:
  "out (snd (process_file5 (Suc (Suc 0)) sample_env rar5_crypt_header_archive None
               initial_world))
     = [''a.rar:$rar5$16$a0a1a2a3a4a5a6a7a8a9aaabacadaeaf$15$b0b1b2b3b4b5b6b7b8b9babbbcbdbebf$12$000000000000000000000000'' @ newline]"
  by (simp add: run5 rar5_crypt_header_archive_def cong: prod.case_cong_weak option.case_cong_weak bool.case_cong_weak)
    (simp add: eval_nat_numeral)

lemma read_buf_full:
  assumes "1 \<le> n" and "int n < 2 ^ sz" and "pos fp + n \<le> readable fp"
  shows "fst (read_buf sz fp cp (int n) br) = int n"
    and "pos (snd (snd (snd (read_buf sz fp cp (int n) br)))) = pos fp + n"
    and "readable (snd (snd (snd (read_buf sz fp cp (int n) br)))) = readable fp"
proof -
  from assms have m: "int n mod 2 ^ sz = int n" by simp
  obtain bs fq where f: "fread n fp = (bs, fq)" by (cases "fread n fp")
  have l: "length bs = n" using fread_length [of n fp] f assms by simp
  with assms have ne: "\<not> length bs < 1" by simp
  have p: "pos fq = pos fp + n" using fread_pos [of n fp] f assms by simp
  have r: "readable fq = readable fp" using fread_readable [of n fp] f by simp
  from ne show "fst (read_buf sz fp cp (int n) br) = int n"
    by (simp add: read_buf_def m f Let_def)
  from ne p show "pos (snd (snd (snd (read_buf sz fp cp (int n) br)))) = pos fp + n"
    by (simp add: read_buf_def m f Let_def)
  from ne r show "readable (snd (snd (snd (read_buf sz fp cp (int n) br)))) = readable fp"
    by (simp add: read_buf_def m f Let_def)
qed

text \<open>
  Claim C9.  A crypt header block and the crypt record of an extra area both start with
  a version, the flags and the count byte \<open>lg\<close>.  With these three fields read from the
  stream, the header block rejects the count only when \<open>lg > 24\<close>, so \<open>lg = 24\<close> is
  stored and the block accepted, while the extra-area record rejects it as soon as
  \<open>lg \<ge> 24\<close>, so \<open>lg = 24\<close> is refused there with no record printed.
\<close>

theorem lg2_count_limit_differs:
  assumes v: "read_vuint (arc st) br = (r1, ver, br1, fp1)" "r1 \<noteq> 0"
    and f: "read_vuint fp1 br1 = (r2, flags, br2, fp2)" "r2 \<noteq> 0"
    and l: "read_uint8 fp2 0 br2 = (r3, lg, br3, fp3)" "r3 \<noteq> 0"
    and sz: "16 < (2::int) ^ size_bits env"
  shows
    "(ver \<le> CRYPT_VERSION env \<and> lg \<le> CRYPT5_KDF_LG2_COUNT_MAX \<longrightarrow>
        out (snd (crypt_block env br st)) = out st \<and>
        rar5_interations (snd (crypt_block env br st)) = ucast lg \<and>
        (pos fp3 + 32 \<le> readable fp3 \<longrightarrow>
           fst (crypt_block env br st) \<and> Encrypted (snd (crypt_block env br st)))) \<and>
     (ver \<le> CRYPT_VERSION env \<and> CRYPT5_KDF_LG2_COUNT_MAX < lg \<longrightarrow>
        crypt_block env br st =
          (False, print (''rar PBKDF2 iteration count too large'' @ newline)
                    (st\<lparr>arc := fp3,
                        UsePswCheck := (flags AND CHFL_CRYPT_PSWCHECK env \<noteq> 0)\<rparr>))) \<and>
     (flags AND FHEXTRA_CRYPT_PSWCHECK \<noteq> 0 \<and> CRYPT5_KDF_LG2_COUNT_MAX \<le> lg \<longrightarrow>
        extra_crypt_record env br st = (0, say Lg2Count_too_large (st\<lparr>arc := fp3\<rparr>))) \<and>
     (flags AND FHEXTRA_CRYPT_PSWCHECK \<noteq> 0 \<and> lg < CRYPT5_KDF_LG2_COUNT_MAX \<longrightarrow>
        diags (snd (extra_crypt_record env br st)) = diags st \<and>
        (pos fp3 + 44 \<le> readable fp3 \<longrightarrow>
           found (snd (extra_crypt_record env br st)) = found st + 1))"
proof -
  have A: "out (snd (crypt_block env br st)) = out st \<and>
        rar5_interations (snd (crypt_block env br st)) = ucast lg \<and>
        (pos fp3 + 32 \<le> readable fp3 \<longrightarrow>
           fst (crypt_block env br st) \<and> Encrypted (snd (crypt_block env br st)))"
    if a: "ver \<le> CRYPT_VERSION env \<and> lg \<le> CRYPT5_KDF_LG2_COUNT_MAX"
  proof (intro conjI impI)
  from a have nv: "\<not> CRYPT_VERSION env < ver" and nl: "\<not> CRYPT5_KDF_LG2_COUNT_MAX < lg"
    by auto
  show "out (snd (crypt_block env br st)) = out st"
    using v f l nv nl
    by (simp add: crypt_block_def Let_def split: prod.splits)
  show "rar5_interations (snd (crypt_block env br st)) = ucast lg"
    using v f l nv nl
    by (simp add: crypt_block_def Let_def split: prod.splits)
  assume room: "pos fp3 + 32 \<le> readable fp3"
  have s16: "int 16 < 2 ^ size_bits env" "int 12 < 2 ^ size_bits env" "int 4 < 2 ^ size_bits env"
    using sz by simp_all
  note b1 = read_buf_full [where sz = "size_bits env" and fp = fp3 and n = 16, OF _ s16(1)]
  obtain a1 c1 d1 fp4 where rb1: "read_buf (size_bits env) fp3 (rar5_salt st) (int 16) br3 = (a1, c1, d1, fp4)"
    by (metis prod_cases4)
  have q1: "a1 = 16" "pos fp4 = pos fp3 + 16" "readable fp4 = readable fp3"
    using b1 [of "rar5_salt st" br3] room rb1 by simp_all
  obtain a2 c2 d2 fp5 where rb2: "read_buf (size_bits env) fp4 (PswCheck st) (int 12) d1 = (a2, c2, d2, fp5)"
    by (metis prod_cases4)
  have q2: "a2 = 12" "pos fp5 = pos fp4 + 12" "readable fp5 = readable fp4"
    using read_buf_full [where sz = "size_bits env" and fp = fp4 and n = 12, OF _ s16(2), of "PswCheck st" d1]
      room rb2 q1 by simp_all
  obtain a3 c3 d3 fp6 where rb3: "read_buf (size_bits env) fp5 (local_array env ''chksum'' 4) (int 4) d2 = (a3, c3, d3, fp6)"
    by (metis prod_cases4)
  have q3: "a3 = 4"
    using read_buf_full [where sz = "size_bits env" and fp = fp5 and n = 4, OF _ s16(3), of "local_array env ''chksum'' 4" d2]
      room rb3 q1 q2 by simp_all
  show "fst (crypt_block env br st)" "Encrypted (snd (crypt_block env br st))"
    using v f l nv nl rb1 rb2 rb3 q1 q2 q3
    by (simp_all add: crypt_block_def Let_def SIZE_SALT50_def SIZE_PSWCHECK_def
        SIZE_PSWCHECK_CSUM_def)
  qed
  have B: "crypt_block env br st =
          (False, print (''rar PBKDF2 iteration count too large'' @ newline)
                    (st\<lparr>arc := fp3,
                        UsePswCheck := (flags AND CHFL_CRYPT_PSWCHECK env \<noteq> 0)\<rparr>))"
    if "ver \<le> CRYPT_VERSION env \<and> CRYPT5_KDF_LG2_COUNT_MAX < lg"
  proof -
    from that have "\<not> CRYPT_VERSION env < ver" "CRYPT5_KDF_LG2_COUNT_MAX < lg" by auto
    then show ?thesis using v f l by (simp add: crypt_block_def Let_def)
  qed
  have C: "extra_crypt_record env br st = (0, say Lg2Count_too_large (st\<lparr>arc := fp3\<rparr>))"
    if "flags AND FHEXTRA_CRYPT_PSWCHECK \<noteq> 0 \<and> CRYPT5_KDF_LG2_COUNT_MAX \<le> lg"
    using that v f l by (simp add: extra_crypt_record_def Let_def)
  have D: "diags (snd (extra_crypt_record env br st)) = diags st \<and>
        (pos fp3 + 44 \<le> readable fp3 \<longrightarrow>
           found (snd (extra_crypt_record env br st)) = found st + 1)"
    if a: "flags AND FHEXTRA_CRYPT_PSWCHECK \<noteq> 0 \<and> lg < CRYPT5_KDF_LG2_COUNT_MAX"
  proof (intro conjI impI)
  from a have nl: "\<not> CRYPT5_KDF_LG2_COUNT_MAX \<le> lg" by auto
  show "diags (snd (extra_crypt_record env br st)) = diags st"
    using v f l a nl
    by (simp add: extra_crypt_record_def Let_def print_def split: prod.splits)
  assume room: "pos fp3 + 44 \<le> readable fp3"
  have s16: "int 16 < 2 ^ size_bits env" "int 12 < 2 ^ size_bits env"
    using sz by simp_all
  obtain a1 c1 d1 fp4 where rb1: "read_buf (size_bits env) fp3 (rar5_salt st) (int 16) br3 = (a1, c1, d1, fp4)"
    by (metis prod_cases4)
  have q1: "a1 = 16" "pos fp4 = pos fp3 + 16" "readable fp4 = readable fp3"
    using read_buf_full [where sz = "size_bits env" and fp = fp3 and n = 16, OF _ s16(1), of "rar5_salt st" br3]
      room rb1 by simp_all
  obtain a2 c2 d2 fp5 where rb2: "read_buf (size_bits env) fp4 (local_array env ''InitV'' 16) (int 16) d1 = (a2, c2, d2, fp5)"
    by (metis prod_cases4)
  have q2: "a2 = 16" "pos fp5 = pos fp4 + 16" "readable fp5 = readable fp4"
    using read_buf_full [where sz = "size_bits env" and fp = fp4 and n = 16, OF _ s16(1), of "local_array env ''InitV'' 16" d1]
      room rb2 q1 by simp_all
  obtain a3 c3 d3 fp6 where rb3: "read_buf (size_bits env) fp5 (PswCheck st) (int 12) d2 = (a3, c3, d3, fp6)"
    by (metis prod_cases4)
  have q3: "a3 = 12"
    using read_buf_full [where sz = "size_bits env" and fp = fp5 and n = 12, OF _ s16(2), of "PswCheck st" d2]
      room rb3 q1 q2 by simp_all
  show "found (snd (extra_crypt_record env br st)) = found st + 1"
    using v f l a nl rb1 rb2 rb3 q1 q2 q3
    by (simp add: extra_crypt_record_def Let_def SIZE_SALT50_def SIZE_PSWCHECK_def
        SIZE_INITV_def print_def)
  qed
  from A B C D show ?thesis by blast
qed

theorem lg2_count_limit_differs_witness:
  "read_vuint (arc lg2_maximum_state) 0 = (1, 0, 1, (arc lg2_maximum_state)\<lparr>pos := 1\<rparr>) \<and>
   read_vuint ((arc lg2_maximum_state)\<lparr>pos := 1\<rparr>) 1
     = (1, 1, 2, (arc lg2_maximum_state)\<lparr>pos := 2\<rparr>) \<and>
   read_uint8 ((arc lg2_maximum_state)\<lparr>pos := 2\<rparr>) 0 2
     = (1, 24, 3, (arc lg2_maximum_state)\<lparr>pos := 3\<rparr>) \<and>
   16 < (2::int) ^ size_bits sample_env \<and>
   fst (crypt_block sample_env 0 lg2_maximum_state) \<and>
   Encrypted (snd (crypt_block sample_env 0 lg2_maximum_state)) \<and>
   rar5_interations (snd (crypt_block sample_env 0 lg2_maximum_state)) = 24 \<and>
   out (snd (crypt_block sample_env 0 lg2_maximum_state)) = [] \<and>
   extra_crypt_record sample_env 0 lg2_maximum_state
     = (0, say Lg2Count_too_large (lg2_maximum_state\<lparr>arc := (arc lg2_maximum_state)\<lparr>pos := 3\<rparr>\<rparr>))"
proof -
  have v: "read_vuint (arc lg2_maximum_state) 0
             = (1, 0, 1, (arc lg2_maximum_state)\<lparr>pos := 1\<rparr>)"
    by (simp add: run5 lg2_maximum_state_def)
  have f: "read_vuint ((arc lg2_maximum_state)\<lparr>pos := 1\<rparr>) 1
             = (1, 1, 2, (arc lg2_maximum_state)\<lparr>pos := 2\<rparr>)"
    by (simp add: run5 lg2_maximum_state_def)
  have l: "read_uint8 ((arc lg2_maximum_state)\<lparr>pos := 2\<rparr>) 0 2
             = (1, 24, 3, (arc lg2_maximum_state)\<lparr>pos := 3\<rparr>)"
    by (simp add: run5 lg2_maximum_state_def)
  have sz: "16 < (2::int) ^ size_bits sample_env" by (simp add: sample_env_def)
  have one: "(1::int) \<noteq> 0" by simp
  have room: "pos ((arc lg2_maximum_state)\<lparr>pos := 3\<rparr>) + 32
                \<le> readable ((arc lg2_maximum_state)\<lparr>pos := 3\<rparr>)"
    by (simp add: lg2_maximum_state_def r5_of_world_def readable_def)
  have ver: "(0::64 word) \<le> CRYPT_VERSION sample_env" by simp
  have fl: "(1::64 word) AND FHEXTRA_CRYPT_PSWCHECK \<noteq> 0"
    by (simp add: FHEXTRA_CRYPT_PSWCHECK_def)
  have init: "out lg2_maximum_state = []"
    by (simp add: lg2_maximum_state_def r5_of_world_def initial_world_def)
  show ?thesis
    using lg2_count_limit_differs [OF v one f one l one sz] v f l sz room ver fl init
    by (simp add: CRYPT5_KDF_LG2_COUNT_MAX_def)
qed

section \<open>The extra area of a RAR5 file block\<close>

text \<open>
  Claim C2 fails on the code.  The archive \<open>rar5_leading_tlv_archive\<close> has one file
  block whose extra area carries a crypt record with the password-check flag, behind a
  record of another type.  \<^verbatim>\<open>ProcessExtra50\<close> does not step over the payload of the
  first record: it reads the payload byte \<open>0x7f\<close> as the size of the next record, finds
  the area exceeded and returns.  No record is printed for the entry.
\<close>

theorem leading_tlv_hides_crypt_record:
  "process_file5 (Suc (Suc (Suc 0))) sample_env rar5_leading_tlv_archive None initial_world
     = (Some 1, initial_world\<lparr>diags := [Did_not_find_candidate]\<rparr>)"
  by (simp add: run5 rar5_leading_tlv_archive_def cong: prod.case_cong_weak option.case_cong_weak bool.case_cong_weak label.case_cong_weak)

text \<open>With the crypt record first in the extra area, the record of the entry is printed.\<close>

lemma crypt_record_first_is_found:
  "out (snd (process_file5 (Suc (Suc (Suc 0))) sample_env rar5_crypt_first_archive None
               initial_world))
     = [''a.rar:$rar5$16$a0a1a2a3a4a5a6a7a8a9aaabacadaeaf$15$b0b1b2b3b4b5b6b7b8b9babbbcbdbebf$12$c0c1c2c3c4c5c6c7c8c9cacb'' @ newline]"
  by (simp add: run5 rar5_crypt_first_archive_def cong: prod.case_cong_weak option.case_cong_weak bool.case_cong_weak label.case_cong_weak)

section \<open>Running the RAR3 parser\<close>

lemmas run3 = replicate_numeral_unfold bit_Suc_0_iff process_file_def process_rar3_def
  file_headers.simps file_header_def header_body_def mode0_record_def mode1_entry_def
  high_sizes_def entry_name_def add_to_gecos_def entry_salt_and_time_def entry_select_def
  admit_candidate_def read_cipher.simps skip_data_def better_candidate_already_def
  bail_out_def r3_of_world_def initial_bestsize_def SIZE_MAX_def le16_def le32_def
  c_string_def chars_of_def char_of_def check_fread_def hexdump_def hexdump_bytes.simps
  RAR3_MAGIC_def RAR_OLD_MAGIC_def sample_env32_def sample_env32_verbose_def

section \<open>Sizes of 64 bits on a 32-bit build\<close>

text \<open>
  Claim C5 fails on the code.  On a build with a 32-bit \<^verbatim>\<open>size_t\<close> and without \<^verbatim>\<open>-v\<close>,
  the archive \<open>rar3_high_size_archive\<close>, whose file header has the flag \<open>0x100\<close> and a
  high word of the packed size of 1, is not rejected: the sizes lose their high words
  and the record of the entry is printed with the packed size 4.  The test of the size
  type stands inside \<^verbatim>\<open>if (verbose)\<close>.
\<close>

theorem high_sizes_not_rejected_when_quiet:
  "process_file (Suc (Suc 0)) sample_env32 rar3_high_size_archive None initial_world
     = (True, initial_world
          \<lparr>out := [''a.rar:$RAR3$*1*0000000000000000*deadbeef*4*20*1*11223344*30:1::a '' @ newline],
           diags := [File_name_shown]\<rparr>)"
  by (simp add: run3 run5 rar3_high_size_archive_def cong: prod.case_cong_weak option.case_cong_weak bool.case_cong_weak label.case_cong_weak)

text \<open>With \<^verbatim>\<open>-v\<close> the same archive is rejected on that build.\<close>

lemma high_sizes_rejected_when_verbose:
  "process_file (Suc (Suc 0)) sample_env32_verbose rar3_high_size_archive None initial_world
     = (True, initial_world
          \<lparr>diags := [Blank_line, Head_sizes, High_size_bytes, High_size_bytes,
                     High_sizes_present, Unsupported_64bit_sizes]\<rparr>)"
  by (simp add: run3 run5 rar3_high_size_archive_def cong: prod.case_cong_weak option.case_cong_weak bool.case_cong_weak label.case_cong_weak)

text \<open>
  On every build, without \<^verbatim>\<open>-v\<close>, the two high words are read and the entry goes on
  with the sizes cut to the size type.
\<close>

lemma high_sizes_accepted_when_quiet:
  assumes "\<not> verbose env"
    and "fread_item 4 (src st) = (1, b1, f1)" and "fread_item 4 f1 = (1, b2, f2)"
  shows "fst (high_sizes env p u e st)
           = Some ((p + le32 b1 0 * 2 ^ 32) mod 2 ^ 64 mod 2 ^ size_bits env,
                   (u + le32 b2 0 * 2 ^ 32) mod 2 ^ 64 mod 2 ^ size_bits env, e - 8)"
  using assms by (simp add: high_sizes_def Let_def say_if_def)

section \<open>The type tag of a RAR3 header\<close>

lemma admit_candidate_tag:
  "admit_candidate env (hb[2 := t]) p u m salt st = admit_candidate env hb p u m salt st"
  by (simp add: admit_candidate_def)

lemma tag_fields:
  "le16 (hb[2 := t]) 3 = le16 hb 3" "le16 (hb[2 := t]) 5 = le16 hb 5"
  "le16 (hb[2 := t]) 26 = le16 hb 26" "le32 (hb[2 := t]) 7 = le32 hb 7"
  "le32 (hb[2 := t]) 11 = le32 hb 11" "hb[2 := t] ! 25 = hb ! 25"
  by (simp_all add: le16_def le32_def)

lemma entry_select_tag:
  "entry_select env (hb[2 := t]) p u salt st = entry_select env hb p u salt st"
  unfolding entry_select_def tag_fields admit_candidate_tag by (rule refl)

lemma entry_name_tag: "entry_name env (hb[2 := t]) st = entry_name env hb st"
  unfolding entry_name_def tag_fields by (rule refl)

lemma mode1_entry_tag: "mode1_entry env (hb[2 := t]) st = mode1_entry env hb st"
  unfolding mode1_entry_def tag_fields entry_name_tag entry_select_tag by (rule refl)

lemma src_say_if: "src (say_if c d st) = src st"
  by (simp add: say_if_def say_def)

text \<open>
  Claim C6, as the code has it.  In the \<^verbatim>\<open>-p\<close> mode, once the 32 bytes of a header are
  read: a header with the tag \<open>0x7a\<close> is noted (under \<^verbatim>\<open>-v\<close>) and then processed as the
  file entry with the same fields, exactly as if its tag were \<open>0x74\<close>; a header with the
  tag \<open>0x74\<close> is processed as a file entry; any other tag ends the parsing (the jump to
  \<^verbatim>\<open>BailOut\<close>).
\<close>

theorem type_tag_dispatch:
  assumes "fread_item 32 (src st) = (1, hb, fp1)" and "\<not> eof fp1"
  shows "file_header env 1 st =
           (let st1 = (say_if (verbose env) Blank_line st)\<lparr>src := fp1\<rparr>
            in if hb ! 2 = 0x7a
               then mode1_entry env (hb[2 := 0x74])
                      (say_if (verbose env) Comment_block_present st1)
               else if hb ! 2 = 0x74 then mode1_entry env hb st1
               else (BailOut, say Not_recognising_more_headers st1))"
  using assms
  by (simp add: file_header_def header_body_def Let_def src_say_if mode1_entry_tag)

theorem type_tag_dispatch_witness:
  "fread_item 32 (src comment_tag_state)
     = (1, take 32 (drop 20 rar3_comment_tag_archive), (src comment_tag_state)\<lparr>pos := 52\<rparr>) \<and>
   \<not> eof ((src comment_tag_state)\<lparr>pos := 52\<rparr>) \<and>
   take 32 (drop 20 rar3_comment_tag_archive) ! 2 = 0x7a \<and>
   file_header sample_env 1 comment_tag_state
     = mode1_entry sample_env ((take 32 (drop 20 rar3_comment_tag_archive))[2 := 0x74])
         (comment_tag_state\<lparr>src := (src comment_tag_state)\<lparr>pos := 52\<rparr>\<rparr>)"
proof -
  have h1: "fread_item 32 (src comment_tag_state)
     = (1, take 32 (drop 20 rar3_comment_tag_archive), (src comment_tag_state)\<lparr>pos := 52\<rparr>)"
    by (simp add: comment_tag_state_def r3_of_world_def fread_item_def fread_def readable_def
        Let_def rar3_comment_tag_archive_def)
  have h2: "\<not> eof ((src comment_tag_state)\<lparr>pos := 52\<rparr>)"
    by (simp add: comment_tag_state_def r3_of_world_def)
  have t: "take 32 (drop 20 rar3_comment_tag_archive) ! 2 = 0x7a"
    by (simp add: rar3_comment_tag_archive_def)
  have q: "\<not> verbose sample_env" by (simp add: sample_env_def)
  show ?thesis
    using type_tag_dispatch [OF h1 h2, of sample_env] h1 h2 t q
    by (simp add: Let_def say_if_def)
qed

text \<open>
  The claim as stated fails: the header with the tag \<open>0x7a\<close> of
  \<open>rar3_comment_tag_archive\<close> is not stepped over by its head size.  Its fields are
  read as those of a file entry, and the record of the archive is built from it.
\<close>

theorem comment_tag_counterexample:
  "rar3_comment_tag_archive ! 22 = 0x7a \<and>
   process_file (Suc (Suc 0)) sample_env rar3_comment_tag_archive None initial_world
     = (True, initial_world
          \<lparr>out := [''a.rar:$RAR3$*1*0000000000000000*deadbeef*4*20*1*11223344*30:1::a '' @ newline],
           diags := [File_name_shown]\<rparr>)"
  by (simp add: run3 run5 rar3_comment_tag_archive_def cong: prod.case_cong_weak option.case_cong_weak bool.case_cong_weak label.case_cong_weak)

section \<open>Archives with encrypted headers\<close>



lemma world_of_r3: "world_of (r3_of_world env w fp) = w"
  by (simp add: world_of_def r3_of_world_def)




section \<open>Records are written whole, except in the mode with encrypted headers\<close>

lemma la_refl [simp]: "lines_appended a a"
  by (simp add: lines_appended_def)



lemma complete_newline [simp]: "complete_line (s @ newline)"
  by (simp add: complete_line_def newline_def)

lemma complete_line_Cons [simp]:
  "complete_line (c # s) = (if s = [] then c = CHR 0x0A else complete_line s)"
  by (simp add: complete_line_def)

lemma complete_line_newline [simp]: "complete_line newline"
  by (simp add: complete_line_def newline_def)

lemma newline_not_Nil [simp]: "newline \<noteq> []"
  by (simp add: newline_def)

lemma complete_rar5_record [simp]: "complete_line (rar5_record env salt lg iv psw)"
proof -
  have "rar5_record env salt lg iv psw
          = (base_aname env @ '':$rar5$'' @ show_nat SIZE_SALT50 @ ''$''
              @ b64_hex env (take SIZE_SALT50 salt) @ ''$'' @ show_int lg @ ''$''
              @ b64_hex env (take SIZE_INITV iv) @ ''$'' @ show_nat SIZE_PSWCHECK @ ''$''
              @ b64_hex env (take SIZE_PSWCHECK psw)) @ newline"
    by (simp add: rar5_record_def)
  then show ?thesis by (simp only: complete_newline)
qed

lemma out_say [simp]: "out (say d st) = out st"
  by (simp add: say_def)

lemma out_say_if [simp]: "out (say_if c d st) = out st"
  by (simp add: say_if_def)

lemma out_print [simp]: "out (print s st) = out st @ [s]"
  by (simp add: print_def)










lemma add_to_gecos_out [simp]: "out (add_to_gecos env name st) = out st"
  by (simp add: add_to_gecos_def Let_def)



lemma skip_data_out [simp]: "out (skip_data p st) = out st"
  by (simp add: skip_data_def)

lemma admit_candidate_out [simp]: "out (admit_candidate env hb p u m salt st) = out st"
proof -
  obtain t f fp
    where 1: "read_cipher env p
                (src (say_if (verbose env) Method_shown
                       (say_if (verbose env) Unp_ver_shown
                          (say_if (verbose env) Salt_shown
                             (say_if (verbose env) Best_candidate_so_far st))))) = (t, f, fp)"
    by (metis prod_cases3)
  show ?thesis using 1 by (simp add: admit_candidate_def Let_def)
qed

lemma entry_select_out [simp]: "out (entry_select env hb p u salt st) = out st"
  by (simp add: entry_select_def Let_def)








end
